theory Spec2Isabelle
  imports Main "HOL-Library.Word"
begin

section \<open>Python values: text, bytes and exceptions\<close>

text \<open>
  A Python \<open>str\<close> is a sequence of Unicode code points, so \<open>len\<close> counts code points
  and a string may hold a lone surrogate (which UTF-8 refuses to encode). A \<open>bytes\<close>
  object is a sequence of octets. Exceptions are values of the type \<open>error\<close>; a function
  that may raise returns \<open>error + 'a\<close>, with \<open>Inl\<close> for the exception.
\<close>

type_synonym byte = "8 word"
type_synonym bytes = "byte list"
type_synonym pystr = "nat list"

datatype error =
    UnicodeEncodeError
  | UnicodeDecodeError
  | Binascii_Error
  | InvalidToken
  | JSONDecodeError
  | TypeError
  | DatabaseError

text \<open>A string literal of the source, as code points.\<close>

definition str :: "string \<Rightarrow> pystr" where
  "str s = map of_char s"

subsection \<open>\<open>str.encode()\<close> and \<open>bytes.decode()\<close>: strict UTF-8\<close>

text \<open>
  \<open>data.encode()\<close> raises \<open>UnicodeEncodeError\<close> on a surrogate (U+D800 to U+DFFF).
  Code points from \<open>0x110000\<close> on cannot occur in a \<open>str\<close>; the model refuses them too.
\<close>

definition utf8_encode_cp :: "nat \<Rightarrow> error + bytes" where
  "utf8_encode_cp c =
     (if c < 0x80 then Inr [of_nat c]
      else if c < 0x800 then Inr [of_nat (0xC0 + c div 64), of_nat (0x80 + c mod 64)]
      else if 0xD800 \<le> c \<and> c \<le> 0xDFFF then Inl UnicodeEncodeError
      else if c < 0x10000 then
        Inr [of_nat (0xE0 + c div 4096), of_nat (0x80 + c div 64 mod 64),
             of_nat (0x80 + c mod 64)]
      else if c < 0x110000 then
        Inr [of_nat (0xF0 + c div 262144), of_nat (0x80 + c div 4096 mod 64),
             of_nat (0x80 + c div 64 mod 64), of_nat (0x80 + c mod 64)]
      else Inl UnicodeEncodeError)"

fun utf8_encode :: "pystr \<Rightarrow> error + bytes" where
  "utf8_encode [] = Inr []"
| "utf8_encode (c # cs) =
     (case utf8_encode_cp c of
        Inl e \<Rightarrow> Inl e
      | Inr bs \<Rightarrow> (case utf8_encode cs of Inl e \<Rightarrow> Inl e | Inr rest \<Rightarrow> Inr (bs @ rest)))"

definition is_cont :: "byte \<Rightarrow> bool" where
  "is_cont b = (0x80 \<le> unat b \<and> unat b < 0xC0)"

text \<open>
  One character of the decoder: the code point and the bytes left, or \<open>None\<close> where the
  strict decoder raises (a stray continuation byte, a truncated or overlong sequence, an
  encoded surrogate, a value above U+10FFFF).
\<close>

fun utf8_decode_one :: "bytes \<Rightarrow> (nat \<times> bytes) option" where
  "utf8_decode_one [] = None"
| "utf8_decode_one (b0 # bs) =
     (let x = unat b0 in
      if x < 0x80 then Some (x, bs)
      else if x < 0xC2 then None
      else if x < 0xE0 then
        (case bs of
           b1 # r \<Rightarrow>
             if is_cont b1 then Some ((x - 0xC0) * 64 + (unat b1 - 0x80), r) else None
         | _ \<Rightarrow> None)
      else if x < 0xF0 then
        (case bs of
           b1 # b2 # r \<Rightarrow>
             if is_cont b1 \<and> is_cont b2 then
               (let c = (x - 0xE0) * 4096 + (unat b1 - 0x80) * 64 + (unat b2 - 0x80)
                in if c < 0x800 \<or> (0xD800 \<le> c \<and> c \<le> 0xDFFF) then None else Some (c, r))
             else None
         | _ \<Rightarrow> None)
      else if x < 0xF5 then
        (case bs of
           b1 # b2 # b3 # r \<Rightarrow>
             if is_cont b1 \<and> is_cont b2 \<and> is_cont b3 then
               (let c = (x - 0xF0) * 262144 + (unat b1 - 0x80) * 4096
                        + (unat b2 - 0x80) * 64 + (unat b3 - 0x80)
                in if c < 0x10000 \<or> 0x10FFFF < c then None else Some (c, r))
             else None
         | _ \<Rightarrow> None)
      else None)"

function utf8_decode :: "bytes \<Rightarrow> error + pystr" where
  "utf8_decode bs =
     (if bs = [] then Inr []
      else (case utf8_decode_one bs of
              None \<Rightarrow> Inl UnicodeDecodeError
            | Some (c, r) \<Rightarrow>
                (case utf8_decode r of Inl e \<Rightarrow> Inl e | Inr cs \<Rightarrow> Inr (c # cs))))"
  by pat_completeness auto
termination
  by (relation "measure length")
     (auto simp: Let_def split: list.splits if_splits elim!: utf8_decode_one.elims)

declare utf8_decode.simps [simp del]

subsection \<open>\<open>base64.urlsafe_b64encode\<close> and \<open>base64.urlsafe_b64decode\<close>\<close>

text \<open>
  The standard library encodes with the standard alphabet and then translates \<open>+\<close> and
  \<open>/\<close> to \<open>-\<close> and \<open>_\<close>; decoding translates back and calls
  \<open>binascii.a2b_base64\<close> in its lenient mode: bytes outside the alphabet are skipped, a pad
  that completes a quad ends the input, and data that stops inside a quad raises
  \<open>binascii.Error\<close>.
\<close>

definition table_b2a_base64 :: "nat \<Rightarrow> byte" where
  "table_b2a_base64 n =
     (if n < 26 then of_nat (65 + n)
      else if n < 52 then of_nat (71 + n)
      else if n < 62 then of_nat (n - 4)
      else if n = 62 then 43 else 47)"

definition BASE64_PAD :: byte where
  "BASE64_PAD = 61"

fun b64encode :: "bytes \<Rightarrow> bytes" where
  "b64encode [] = []"
| "b64encode [a] =
     (let x = unat a in
      [table_b2a_base64 (x div 4), table_b2a_base64 (x mod 4 * 16), BASE64_PAD, BASE64_PAD])"
| "b64encode [a, b] =
     (let x = unat a; y = unat b in
      [table_b2a_base64 (x div 4), table_b2a_base64 (x mod 4 * 16 + y div 16),
       table_b2a_base64 (y mod 16 * 4), BASE64_PAD])"
| "b64encode (a # b # c # rest) =
     (let x = unat a; y = unat b; z = unat c in
      [table_b2a_base64 (x div 4), table_b2a_base64 (x mod 4 * 16 + y div 16),
       table_b2a_base64 (y mod 16 * 4 + z div 64), table_b2a_base64 (z mod 64)])
     @ b64encode rest"

definition urlsafe_encode_translation :: "byte \<Rightarrow> byte" where
  "urlsafe_encode_translation b = (if b = 43 then 45 else if b = 47 then 95 else b)"

definition urlsafe_decode_translation :: "byte \<Rightarrow> byte" where
  "urlsafe_decode_translation b = (if b = 45 then 43 else if b = 95 then 47 else b)"

definition urlsafe_b64encode :: "bytes \<Rightarrow> bytes" where
  "urlsafe_b64encode s = map urlsafe_encode_translation (b64encode s)"

definition table_a2b_base64 :: "byte \<Rightarrow> nat option" where
  "table_a2b_base64 b =
     (let x = unat b in
      if 65 \<le> x \<and> x \<le> 90 then Some (x - 65)
      else if 97 \<le> x \<and> x \<le> 122 then Some (x - 71)
      else if 48 \<le> x \<and> x \<le> 57 then Some (x + 4)
      else if x = 43 then Some 62
      else if x = 47 then Some 63
      else None)"

text \<open>
  The decoding loop, with the state of the C function: the position in the current quad,
  the bits left over from the previous character, the pads seen since the last data
  character, and the output so far.
\<close>

fun a2b_base64 :: "nat \<Rightarrow> nat \<Rightarrow> nat \<Rightarrow> bytes \<Rightarrow> bytes \<Rightarrow> error + bytes" where
  "a2b_base64 quad_pos leftchar pads out [] =
     (if quad_pos \<noteq> 0 then Inl Binascii_Error else Inr out)"
| "a2b_base64 quad_pos leftchar pads out (this_ch # rest) =
     (if this_ch = BASE64_PAD then
        (if quad_pos \<ge> 2 \<and> quad_pos + (pads + 1) \<ge> 4 then Inr out
         else a2b_base64 quad_pos leftchar (if quad_pos \<ge> 2 then pads + 1 else pads) out rest)
      else
        (case table_a2b_base64 this_ch of
           None \<Rightarrow> a2b_base64 quad_pos leftchar pads out rest
         | Some v \<Rightarrow>
             (if quad_pos = 0 then a2b_base64 1 v 0 out rest
              else if quad_pos = 1 then
                a2b_base64 2 (v mod 16) 0 (out @ [of_nat (leftchar * 4 + v div 16)]) rest
              else if quad_pos = 2 then
                a2b_base64 3 (v mod 4) 0 (out @ [of_nat (leftchar * 16 + v div 4)]) rest
              else
                a2b_base64 0 0 0 (out @ [of_nat (leftchar * 64 + v)]) rest)))"

definition b64decode :: "bytes \<Rightarrow> error + bytes" where
  "b64decode s = a2b_base64 0 0 0 [] s"

definition urlsafe_b64decode :: "bytes \<Rightarrow> error + bytes" where
  "urlsafe_b64decode s = b64decode (map urlsafe_decode_translation s)"

section \<open>The encryption helper (\<open>src/utils/encryption.py\<close>)\<close>

text \<open>
  The Fernet cipher of the \<open>cryptography\<close> package is outside the repository: it is a
  parameter. Encryption draws an initialisation vector and reads the clock, which the
  argument of type \<open>'r\<close> stands for; decryption is a function of the token alone.
\<close>

record 'r fernet =
  fernet_encrypt :: "'r \<Rightarrow> bytes \<Rightarrow> error + bytes"
  fernet_decrypt :: "bytes \<Rightarrow> error + bytes"

text \<open>
  \<open>EncryptionManager.encrypt\<close>: the empty string is returned as it is; an exception of
  the \<open>try\<close> block (\<open>encrypt_try\<close>) is logged and raised again.
\<close>

definition encrypt_try :: "'r fernet \<Rightarrow> 'r \<Rightarrow> pystr \<Rightarrow> error + pystr" where
  "encrypt_try f r data =
     (case utf8_encode data of
        Inl e \<Rightarrow> Inl e
      | Inr b \<Rightarrow>
          (case fernet_encrypt f r b of
             Inl e \<Rightarrow> Inl e
           | Inr encrypted_data \<Rightarrow> utf8_decode (urlsafe_b64encode encrypted_data)))"

definition encrypt :: "'r fernet \<Rightarrow> 'r \<Rightarrow> pystr \<Rightarrow> error + pystr" where
  "encrypt f r data =
     (if data = [] then Inr []
      else (case encrypt_try f r data of
              Inl e \<Rightarrow> Inl e
            | Inr s \<Rightarrow> Inr s))"

text \<open>The \<open>try\<close> block of \<open>EncryptionManager.decrypt\<close>.\<close>

definition decrypt_try :: "'r fernet \<Rightarrow> pystr \<Rightarrow> error + pystr" where
  "decrypt_try f encrypted_data =
     (case utf8_encode encrypted_data of
        Inl e \<Rightarrow> Inl e
      | Inr b \<Rightarrow>
          (case urlsafe_b64decode b of
             Inl e \<Rightarrow> Inl e
           | Inr decoded_data \<Rightarrow>
               (case fernet_decrypt f decoded_data of
                  Inl e \<Rightarrow> Inl e
                | Inr decrypted_data \<Rightarrow> utf8_decode decrypted_data)))"

text \<open>
  \<open>EncryptionManager.decrypt\<close>: the empty string is returned as it is; an exception of
  the \<open>try\<close> block is logged and the empty string returned.
\<close>

definition decrypt :: "'r fernet \<Rightarrow> pystr \<Rightarrow> error + pystr" where
  "decrypt f encrypted_data =
     (if encrypted_data = [] then Inr []
      else (case decrypt_try f encrypted_data of
              Inl e \<Rightarrow> Inr []
            | Inr s \<Rightarrow> Inr s))"

definition encrypt_data :: "'r fernet \<Rightarrow> 'r \<Rightarrow> pystr \<Rightarrow> error + pystr" where
  "encrypt_data f r data = encrypt f r data"

definition decrypt_data :: "'r fernet \<Rightarrow> pystr \<Rightarrow> error + pystr" where
  "decrypt_data f encrypted_data = decrypt f encrypted_data"

section \<open>Password hashing (\<open>UserManager\<close> in \<open>src/database/user_manager.py\<close>)\<close>

text \<open>
  SHA-256 comes from \<open>hashlib\<close>: it is a parameter, a function from the bytes hashed to
  the digest. \<open>hexdigest\<close> writes every digest byte as two lower-case hexadecimal digits.
\<close>

definition hexdigit :: "nat \<Rightarrow> nat" where
  "hexdigit n = (if n < 10 then 48 + n else 87 + n)"




text \<open>A string that \<open>str.encode()\<close> accepts: code points of Unicode, no surrogate.\<close>

definition encodable :: "pystr \<Rightarrow> bool" where
  "encodable s = list_all (\<lambda>c. c < 0xD800 \<or> (0xDFFF < c \<and> c < 0x110000)) s"

section \<open>Validation helpers (\<open>src/utils/validators.py\<close>)\<close>

subsection \<open>What the validators use of Python\<close>

text \<open>
  The regular-expression engine (\<open>re.match\<close>, \<open>re.search\<close> with or without
  \<open>re.IGNORECASE\<close>, \<open>re.sub\<close>) and the Unicode tables behind \<open>str.lower\<close>,
  \<open>str.isalpha\<close> and \<open>str.strip\<close> are parameters, collected in one record. A pattern
  is the text of the source's literal; \<open>bsl\<close> is the backslash.
\<close>

record pylib =
  re_match :: "string \<Rightarrow> pystr \<Rightarrow> bool"
  re_search :: "string \<Rightarrow> bool \<Rightarrow> pystr \<Rightarrow> bool"
  re_sub :: "string \<Rightarrow> pystr \<Rightarrow> pystr \<Rightarrow> pystr"
  str_lower :: "pystr \<Rightarrow> pystr"
  str_isalpha :: "pystr \<Rightarrow> bool"
  str_strip :: "pystr \<Rightarrow> pystr"

definition bsl :: string where
  "bsl = [CHR 0x5C]"

text \<open>
  The environment variables the validators read, after \<open>os.getenv\<close> has applied its
  default and \<open>int\<close> has parsed the two numbers.
\<close>

record environ =
  PASSWORD_MIN_LENGTH :: int
  MAX_FILE_SIZE :: int
  ALLOWED_FILE_TYPES :: pystr


subsection \<open>String helpers: \<open>str(int)\<close>, \<open>split\<close>, \<open>join\<close>, \<open>startswith\<close>\<close>

function show_nat :: "nat \<Rightarrow> pystr" where
  "show_nat n = (if n < 10 then [48 + n] else show_nat (n div 10) @ [48 + n mod 10])"
  by pat_completeness auto
termination
  by (relation "measure id") auto

declare show_nat.simps [simp del]

definition show_int :: "int \<Rightarrow> pystr" where
  "show_int i = (if i < 0 then 45 # show_nat (nat (- i)) else show_nat (nat i))"


text \<open>\<open>s.split(sep)\<close> for a separator of one character.\<close>

fun split :: "nat \<Rightarrow> pystr \<Rightarrow> pystr list" where
  "split sep [] = [[]]"
| "split sep (c # cs) =
     (if c = sep then [] # split sep cs
      else (case split sep cs of
              p # ps \<Rightarrow> (c # p) # ps
            | [] \<Rightarrow> [[c]]))"

fun join :: "pystr \<Rightarrow> pystr list \<Rightarrow> pystr" where
  "join sep [] = []"
| "join sep [x] = x"
| "join sep (x # y # ys) = x @ sep @ join sep (y # ys)"


text \<open>\<open>d.get(key, "")\<close> on a dictionary of strings.\<close>

definition dict_get :: "(string \<rightharpoonup> pystr) \<Rightarrow> string \<Rightarrow> pystr" where
  "dict_get d k = (case d k of None \<Rightarrow> [] | Some v \<Rightarrow> v)"

subsection \<open>\<open>UserValidator\<close>\<close>

definition validate_username :: "pylib \<Rightarrow> pystr \<Rightarrow> bool \<times> pystr" where
  "validate_username lib username =
     (if username = [] then (False, str ''Username is required'')
      else if length username < 3 then
        (False, str ''Username must be at least 3 characters long'')
      else if length username > 50 then
        (False, str ''Username must be less than 50 characters'')
      else if \<not> re_match lib ''^[a-zA-Z0-9_-]+$'' username then
        (False, str ''Username can only contain letters, numbers, underscore, and hyphen'')
      else if \<not> str_isalpha lib (take 1 username) then
        (False, str ''Username must start with a letter'')
      else (True, []))"

definition invalid_patterns :: "string list" where
  "invalid_patterns = [bsl @ ''.{2,}'', ''^'' @ bsl @ ''.'', bsl @ ''.$'']"

definition validate_email :: "pylib \<Rightarrow> pystr \<Rightarrow> bool \<times> pystr" where
  "validate_email lib email =
     (if email = [] then (False, str ''Email is required'')
      else if \<not> re_match lib
                (''^[a-zA-Z0-9._%+-]+@[a-zA-Z0-9.-]+'' @ bsl @ ''.[a-zA-Z]{2,}$'') email then
        (False, str ''Invalid email format'')
      else if length email > 255 then (False, str ''Email must be less than 255 characters'')
      else if list_ex (\<lambda>pattern. re_search lib pattern False email) invalid_patterns then
        (False, str ''Invalid email format'')
      else (True, []))"

definition weak_passwords :: "pystr list" where
  "weak_passwords =
     map str [''password'', ''123456'', ''password123'', ''admin'', ''user'',
              ''qwerty'', ''abc123'', ''letmein'', ''welcome'', ''monkey'']"

definition missing_types :: "pylib \<Rightarrow> pystr \<Rightarrow> pystr list" where
  \<open>missing_types lib password =
     (if re_search lib ''[A-Z]'' False password then [] else [str ''uppercase letter''])
     @ (if re_search lib ''[a-z]'' False password then [] else [str ''lowercase letter''])
     @ (if re_search lib (bsl @ ''d'') False password then [] else [str ''digit''])
     @ (if re_search lib ''[!@#$%^&*(),.?":{}|<>]'' False password then []
        else [str ''special character''])\<close>

definition validate_password :: "pylib \<Rightarrow> environ \<Rightarrow> pystr \<Rightarrow> bool \<times> pystr" where
  "validate_password lib env password =
     (let min_length = PASSWORD_MIN_LENGTH env in
      if password = [] then (False, str ''Password is required'')
      else if int (length password) < min_length then
        (False, str ''Password must be at least '' @ show_int min_length
                @ str '' characters long'')
      else if length password > 128 then
        (False, str ''Password must be less than 128 characters'')
      else if length (missing_types lib password) > 1 then
        (False, str ''Password must contain at least three of: ''
                @ join (str '', '')
                    (map str [''uppercase letter'', ''lowercase letter'', ''digit'',
                              ''special character'']))
      else if str_lower lib password \<in> set weak_passwords then
        (False, str ''Password is too common. Please choose a stronger password'')
      else (True, []))"

definition validate_name :: "pylib \<Rightarrow> pystr \<Rightarrow> pystr \<Rightarrow> bool \<times> pystr" where
  \<open>validate_name lib name field_name =
     (if name = [] then (True, [])
      else if length name > 100 then
        (False, field_name @ str '' must be less than 100 characters'')
      else if \<not> re_match lib (''^[a-zA-Z'' @ bsl @ ''s'' @ bsl @ ''-']+$'') name then
        (False, field_name
                @ str '' can only contain letters, spaces, hyphens, and apostrophes'')
      else if length (str_strip lib name) < 1 then
        (False, field_name @ str '' cannot be empty'')
      else (True, []))\<close>

definition validate_phone_number :: "pylib \<Rightarrow> pystr \<Rightarrow> bool \<times> pystr" where
  "validate_phone_number lib phone =
     (if phone = [] then (True, [])
      else
        (let cleaned_phone =
               re_sub lib (''['' @ bsl @ ''s'' @ bsl @ ''-'' @ bsl @ ''('' @ bsl @ '')''
                           @ bsl @ ''.]+'') [] phone
         in if \<not> re_match lib (''^'' @ bsl @ ''+?['' @ bsl @ ''d]+$'') cleaned_phone then
              (False, str (''Phone number can only contain digits, spaces, hyphens, ''
                           @ ''parentheses, and + for international numbers''))
            else
              (let digit_count =
                     length (re_sub lib (''[^'' @ bsl @ ''d]'') [] cleaned_phone)
               in if digit_count < 7 \<or> digit_count > 15 then
                    (False, str ''Phone number must contain 7-15 digits'')
                  else (True, []))))"

subsection \<open>\<open>FileValidator.validate_file_upload\<close>\<close>



subsection \<open>\<open>SecurityValidator.validate_sql_injection\<close>\<close>

definition dangerous_patterns :: "string list" where
  \<open>dangerous_patterns =
     [''('' @ bsl @ ''b(SELECT|INSERT|UPDATE|DELETE|DROP|CREATE|ALTER|EXEC|UNION)'' @ bsl
        @ ''b)'',
      ''('' @ bsl @ ''b(OR|AND)'' @ bsl @ ''s+'' @ bsl @ ''d+'' @ bsl @ ''s*='' @ bsl @ ''s*''
        @ bsl @ ''d+)'',
      ''('' @ bsl @ '''|'' @ bsl @ ''"|`|;|--|'' @ bsl @ ''*|'' @ bsl @ ''/'' @ bsl @ ''*|''
        @ bsl @ ''*'' @ bsl @ ''/)'',
      ''('' @ bsl @ ''bxp_'' @ bsl @ ''w+)'',
      ''('' @ bsl @ ''bsp_'' @ bsl @ ''w+)'']\<close>

definition validate_sql_injection :: "pylib \<Rightarrow> pystr \<Rightarrow> bool \<times> pystr" where
  "validate_sql_injection lib input_string =
     (if input_string = [] then (True, [])
      else if list_ex (\<lambda>pattern. re_search lib pattern True input_string) dangerous_patterns
      then (False, str ''Input contains potentially harmful content'')
      else (True, []))"

subsection \<open>\<open>CompositeValidator.validate_user_registration\<close>\<close>

text \<open>
  \<open>user_data\<close> is a dictionary from field names to strings. Each check that fails appends
  one message; the result is valid when no message was appended.
\<close>

definition validate_user_registration ::
  "pylib \<Rightarrow> environ \<Rightarrow> (string \<rightharpoonup> pystr) \<Rightarrow> bool \<times> pystr list" where
  "validate_user_registration lib env user_data =
     (let username = dict_get user_data ''username'';
          email = dict_get user_data ''email'';
          password = dict_get user_data ''password'';
          errors1 = (case validate_username lib username of
                       (is_valid, error) \<Rightarrow>
                         if \<not> is_valid then [str ''Username: '' @ error] else []);
          errors2 = (case validate_sql_injection lib username of
                       (is_safe, error) \<Rightarrow>
                         if \<not> is_safe then errors1 @ [str ''Username: '' @ error]
                         else errors1);
          errors3 = (case validate_email lib email of
                       (is_valid, error) \<Rightarrow>
                         if \<not> is_valid then errors2 @ [str ''Email: '' @ error] else errors2);
          errors4 = (case validate_password lib env password of
                       (is_valid, error) \<Rightarrow>
                         if \<not> is_valid then errors3 @ [str ''Password: '' @ error]
                         else errors3);
          first_name = dict_get user_data ''first_name'';
          errors5 = (if first_name \<noteq> [] then
                       (case validate_name lib first_name (str ''First name'') of
                          (is_valid, error) \<Rightarrow>
                            if \<not> is_valid then errors4 @ [str ''First name: '' @ error]
                            else errors4)
                     else errors4);
          last_name = dict_get user_data ''last_name'';
          errors6 = (if last_name \<noteq> [] then
                       (case validate_name lib last_name (str ''Last name'') of
                          (is_valid, error) \<Rightarrow>
                            if \<not> is_valid then errors5 @ [str ''Last name: '' @ error]
                            else errors5)
                     else errors5);
          phone = dict_get user_data ''phone'';
          errors = (if phone \<noteq> [] then
                      (case validate_phone_number lib phone of
                         (is_valid, error) \<Rightarrow>
                           if \<not> is_valid then errors6 @ [str ''Phone: '' @ error]
                           else errors6)
                    else errors6)
      in (length errors = 0, errors))"

section \<open>JSON text of string lists (\<open>json.dumps\<close>, \<open>json.loads\<close>)\<close>

text \<open>
  The medical fields are lists of strings, and the emergency contact is a dictionary from
  strings to strings. \<open>json.dumps\<close> with its defaults escapes the quote, the backslash
  and the five named control characters, writes every other character outside the
  printable ASCII range as \<open>\uXXXX\<close> (above U+FFFF as a surrogate pair), and separates
  items by a comma and a space.
\<close>

text \<open>Text of ASCII characters only.\<close>

definition ascii :: "pystr \<Rightarrow> bool" where
  "ascii s = list_all (\<lambda>c. c < 128) s"

definition hex4 :: "nat \<Rightarrow> pystr" where
  "hex4 n = [hexdigit (n div 4096 mod 16), hexdigit (n div 256 mod 16),
             hexdigit (n div 16 mod 16), hexdigit (n mod 16)]"

definition escape_char :: "nat \<Rightarrow> pystr" where
  "escape_char c =
     (if c = 34 then [92, 34]
      else if c = 92 then [92, 92]
      else if c = 8 then [92, 98]
      else if c = 12 then [92, 102]
      else if c = 10 then [92, 110]
      else if c = 13 then [92, 114]
      else if c = 9 then [92, 116]
      else if 32 \<le> c \<and> c \<le> 126 then [c]
      else if c < 0x10000 then [92, 117] @ hex4 c
      else [92, 117] @ hex4 (0xD800 + (c - 0x10000) div 1024)
           @ [92, 117] @ hex4 (0xDC00 + (c - 0x10000) mod 1024))"

definition encode_basestring_ascii :: "pystr \<Rightarrow> pystr" where
  "encode_basestring_ascii s = [34] @ concat (map escape_char s) @ [34]"

definition json_dumps :: "pystr list \<Rightarrow> pystr" where
  "json_dumps v = [91] @ join (str '', '') (map encode_basestring_ascii v) @ [93]"

definition json_dumps_dict :: "(pystr \<times> pystr) list \<Rightarrow> pystr" where
  "json_dumps_dict d =
     [123] @ join (str '', '')
               (map (\<lambda>(k, v). encode_basestring_ascii k @ str '': ''
                                @ encode_basestring_ascii v) d)
     @ [125]"

text \<open>
  \<open>json.loads\<close> on the texts that stand for a list of strings, as an automaton over the
  characters: white space around the tokens, strings with their escapes, and a
  \<open>\uXXXX\<close> high surrogate joined with a \<open>\uXXXX\<close> low surrogate that follows it
  directly. A text that is not JSON raises \<open>JSONDecodeError\<close>. A JSON text of another
  shape (a number, an object, a list with other items) decodes in Python to a value that
  is not a list of strings; here it is an error as well.
\<close>

datatype jstate =
    Start
  | Open
  | In_string pystr
  | Escape pystr
  | Hex pystr "nat list"
  | High nat pystr
  | High_escape nat pystr
  | High_hex nat pystr "nat list"
  | After_value
  | After_comma
  | End

definition is_ws :: "nat \<Rightarrow> bool" where
  "is_ws c = (c = 32 \<or> c = 9 \<or> c = 10 \<or> c = 13)"

definition hexval :: "nat \<Rightarrow> nat option" where
  "hexval c =
     (if 48 \<le> c \<and> c \<le> 57 then Some (c - 48)
      else if 97 \<le> c \<and> c \<le> 102 then Some (c - 87)
      else if 65 \<le> c \<and> c \<le> 70 then Some (c - 55)
      else None)"

definition simple_escape :: "nat \<Rightarrow> nat option" where
  "simple_escape c =
     (if c = 34 \<or> c = 92 \<or> c = 47 then Some c
      else if c = 98 then Some 8
      else if c = 102 then Some 12
      else if c = 110 then Some 10
      else if c = 114 then Some 13
      else if c = 116 then Some 9
      else None)"

definition is_high_surrogate :: "nat \<Rightarrow> bool" where
  "is_high_surrogate u = (0xD800 \<le> u \<and> u \<le> 0xDBFF)"

definition is_low_surrogate :: "nat \<Rightarrow> bool" where
  "is_low_surrogate u = (0xDC00 \<le> u \<and> u \<le> 0xDFFF)"

text \<open>A character inside a string, outside any escape.\<close>

definition string_char :: "pystr \<Rightarrow> pystr list \<Rightarrow> nat \<Rightarrow> (jstate \<times> pystr list) option" where
  "string_char cur items c =
     (if c = 34 then Some (After_value, items @ [cur])
      else if c = 92 then Some (Escape cur, items)
      else if c < 32 then None
      else Some (In_string (cur @ [c]), items))"

text \<open>The character after a backslash.\<close>

definition escape_char_read :: "pystr \<Rightarrow> pystr list \<Rightarrow> nat \<Rightarrow> (jstate \<times> pystr list) option" where
  "escape_char_read cur items c =
     (if c = 117 then Some (Hex cur [], items)
      else (case simple_escape c of
              None \<Rightarrow> None
            | Some e \<Rightarrow> Some (In_string (cur @ [e]), items)))"

text \<open>A code unit read from \<open>\uXXXX\<close>: a high surrogate waits for what follows.\<close>

definition unit_read :: "pystr \<Rightarrow> nat \<Rightarrow> jstate" where
  "unit_read cur u = (if is_high_surrogate u then High u cur else In_string (cur @ [u]))"

definition hex_value :: "nat list \<Rightarrow> nat" where
  "hex_value ds = foldl (\<lambda>a d. a * 16 + d) 0 ds"

definition step :: "jstate \<Rightarrow> pystr list \<Rightarrow> nat \<Rightarrow> (jstate \<times> pystr list) option" where
  "step st items c =
     (case st of
        Start \<Rightarrow>
          if is_ws c then Some (Start, items)
          else if c = 91 then Some (Open, items) else None
      | Open \<Rightarrow>
          if is_ws c then Some (Open, items)
          else if c = 93 then Some (End, items)
          else if c = 34 then Some (In_string [], items) else None
      | In_string cur \<Rightarrow> string_char cur items c
      | Escape cur \<Rightarrow> escape_char_read cur items c
      | Hex cur ds \<Rightarrow>
          (case hexval c of
             None \<Rightarrow> None
           | Some d \<Rightarrow>
               if length ds < 3 then Some (Hex cur (ds @ [d]), items)
               else Some (unit_read cur (hex_value (ds @ [d])), items))
      | High h cur \<Rightarrow>
          if c = 92 then Some (High_escape h cur, items)
          else string_char (cur @ [h]) items c
      | High_escape h cur \<Rightarrow>
          if c = 117 then Some (High_hex h cur [], items)
          else escape_char_read (cur @ [h]) items c
      | High_hex h cur ds \<Rightarrow>
          (case hexval c of
             None \<Rightarrow> None
           | Some d \<Rightarrow>
               if length ds < 3 then Some (High_hex h cur (ds @ [d]), items)
               else
                 (let u = hex_value (ds @ [d]) in
                  if is_low_surrogate u then
                    Some (In_string
                            (cur @ [0x10000 + (h - 0xD800) * 1024 + (u - 0xDC00)]), items)
                  else Some (unit_read (cur @ [h]) u, items)))
      | After_value \<Rightarrow>
          if is_ws c then Some (After_value, items)
          else if c = 44 then Some (After_comma, items)
          else if c = 93 then Some (End, items) else None
      | After_comma \<Rightarrow>
          if is_ws c then Some (After_comma, items)
          else if c = 34 then Some (In_string [], items) else None
      | End \<Rightarrow> if is_ws c then Some (End, items) else None)"

fun run :: "jstate \<Rightarrow> pystr list \<Rightarrow> pystr \<Rightarrow> error + pystr list" where
  "run st items [] = (if st = End then Inr items else Inl JSONDecodeError)"
| "run st items (c # cs) =
     (case step st items c of
        None \<Rightarrow> Inl JSONDecodeError
      | Some (st', items') \<Rightarrow> run st' items' cs)"

definition json_loads :: "pystr \<Rightarrow> error + pystr list" where
  "json_loads s = run Start [] s"

section \<open>The database (\<open>src/database/models.py\<close>, \<open>src/database/database.py\<close>)\<close>

text \<open>
  A table is the list of its rows, a row a record of its columns; a nullable column is an
  \<open>option\<close>. Times are points on a clock of natural numbers. The two \<open>Float\<close> columns are
  only stored, never computed with, so their type is left open.
\<close>

type_synonym datetime = nat

typedecl pyfloat

record user =
  u_id :: pystr
  u_username :: pystr
  u_email :: pystr
  u_password_hash :: pystr
  u_first_name :: "pystr option"
  u_last_name :: "pystr option"
  u_date_of_birth :: "pystr option"
  u_phone_number :: "pystr option"
  u_language_preference :: "pystr option"
  u_accessibility_font_size :: "pystr option"
  u_accessibility_high_contrast :: "bool option"
  u_accessibility_screen_reader :: "bool option"
  u_medical_conditions :: "pystr option"
  u_medications :: "pystr option"
  u_allergies :: "pystr option"
  u_emergency_contact :: "pystr option"
  u_created_at :: "datetime option"
  u_updated_at :: "datetime option"
  u_is_active :: "bool option"
  u_last_login :: "datetime option"
  u_data_sharing_consent :: "bool option"
  u_marketing_consent :: "bool option"

record chat_session =
  cs_id :: pystr
  cs_user_id :: pystr
  cs_session_name :: "pystr option"
  cs_created_at :: "datetime option"
  cs_updated_at :: "datetime option"
  cs_is_bookmarked :: "bool option"
  cs_session_summary :: "pystr option"
  cs_language_used :: "pystr option"
  cs_is_shared :: "bool option"
  cs_shared_with_provider :: "pystr option"

record chat_message =
  cm_id :: pystr
  cm_session_id :: pystr
  cm_user_message :: "pystr option"
  cm_bot_response :: "pystr option"
  cm_source_documents :: "pystr option"
  cm_timestamp :: "datetime option"
  cm_response_time :: "pyfloat option"
  cm_confidence_score :: "pyfloat option"
  cm_is_bookmarked :: "bool option"
  cm_user_rating :: "int option"
  cm_user_notes :: "pystr option"
  cm_medical_specialty :: "pystr option"
  cm_urgency_level :: "pystr option"

record database =
  users :: "user list"
  chat_sessions :: "chat_session list"
  chat_messages :: "chat_message list"

text \<open>
  What a call leaves behind: the committed database and the lines written to the logger.
  \<open>logger.error(f"...: {e}")\<close> is \<open>Log_error\<close> with the text before the colon and the
  exception; a warning may carry an exception in the same way.
\<close>

datatype log_entry =
    Log_info pystr
  | Log_warning pystr "error option"
  | Log_error pystr error

record state =
  st_db :: database
  st_log :: "log_entry list"

text \<open>
  \<open>DatabaseManager.get_session\<close>, a context manager. The body of the \<open>with\<close> block
  works on the session: it sees the database with its own pending changes and returns a
  value or raises. Leaving the block normally commits; the engine may refuse the commit
  (the parameter \<open>commit\<close> gives its verdict on the pending database). An exception of the
  body or of the commit rolls the session back, is logged and raised again. The lines the
  body has logged stay. No body in the repository commits by itself.
\<close>

definition session_error :: "error \<Rightarrow> log_entry" where
  "session_error e = Log_error (str ''Database session error'') e"

definition get_session ::
  "(database \<Rightarrow> error option) \<Rightarrow> (state \<Rightarrow> (error + 'a) \<times> state) \<Rightarrow> state
     \<Rightarrow> (error + 'a) \<times> state" where
  "get_session commit body st =
     (case body st of
        (Inr r, st') \<Rightarrow>
          (case commit (st_db st') of
             None \<Rightarrow> (Inr r, st')
           | Some e \<Rightarrow>
               (Inl e, st'\<lparr>st_db := st_db st,
                           st_log := st_log st' @ [session_error e]\<rparr>))
      | (Inl e, st') \<Rightarrow>
          (Inl e, st'\<lparr>st_db := st_db st,
                      st_log := st_log st' @ [session_error e]\<rparr>))"

definition logger :: "log_entry \<Rightarrow> state \<Rightarrow> state" where
  "logger entry st = st\<lparr>st_log := st_log st @ [entry]\<rparr>"

section \<open>Chat sessions and messages (\<open>SessionManager\<close> in \<open>src/database/user_manager.py\<close>)\<close>

text \<open>
  The query of \<open>bookmark_message\<close> and \<open>rate_message\<close>: the first message with the given
  id whose chat session (joined on the foreign key) belongs to the user.
\<close>

definition session_of_user :: "database \<Rightarrow> pystr \<Rightarrow> pystr \<Rightarrow> bool" where
  "session_of_user d session_id user_id =
     list_ex (\<lambda>s. cs_id s = session_id \<and> cs_user_id s = user_id) (chat_sessions d)"

definition query_message :: "database \<Rightarrow> pystr \<Rightarrow> pystr \<Rightarrow> chat_message option" where
  "query_message d message_id user_id =
     find (\<lambda>m. cm_id m = message_id \<and> session_of_user d (cm_session_id m) user_id)
       (chat_messages d)"

text \<open>The user owns the chat session of some message with the given id.\<close>

definition message_of_user :: "database \<Rightarrow> pystr \<Rightarrow> pystr \<Rightarrow> bool" where
  "message_of_user d message_id user_id =
     list_ex (\<lambda>m. cm_id m = message_id \<and> session_of_user d (cm_session_id m) user_id)
       (chat_messages d)"

text \<open>Python's \<open>not x\<close> on a nullable Boolean column.\<close>

definition py_not :: "bool option \<Rightarrow> bool" where
  "py_not x = (case x of Some True \<Rightarrow> False | _ \<Rightarrow> True)"

text \<open>An attribute assignment on a loaded row becomes an update of the row with its key.\<close>

definition update_message :: "pystr \<Rightarrow> (chat_message \<Rightarrow> chat_message) \<Rightarrow> database \<Rightarrow> database" where
  "update_message message_id f d =
     d\<lparr>chat_messages := map (\<lambda>m. if cm_id m = message_id then f m else m) (chat_messages d)\<rparr>"

definition bookmark_message ::
  "(database \<Rightarrow> error option) \<Rightarrow> pystr \<Rightarrow> pystr \<Rightarrow> state \<Rightarrow> bool \<times> state" where
  "bookmark_message commit message_id user_id st =
     (case get_session commit
             (\<lambda>s. case query_message (st_db s) message_id user_id of
                     Some message \<Rightarrow>
                       (Inr True,
                        logger (Log_info (str ''Message '' @ message_id
                                          @ str '' bookmark status changed''))
                          (s\<lparr>st_db := update_message (cm_id message)
                                (\<lambda>m. m\<lparr>cm_is_bookmarked :=
                                           Some (py_not (cm_is_bookmarked message))\<rparr>)
                                (st_db s)\<rparr>))
                   | None \<Rightarrow> (Inr False, s)) st of
        (Inr b, st') \<Rightarrow> (b, st')
      | (Inl e, st') \<Rightarrow> (False, logger (Log_error (str ''Error bookmarking message'') e) st'))"

definition rate_message ::
  "(database \<Rightarrow> error option) \<Rightarrow> pystr \<Rightarrow> pystr \<Rightarrow> int \<Rightarrow> state \<Rightarrow> bool \<times> state" where
  "rate_message commit message_id user_id rating st =
     (case get_session commit
             (\<lambda>s. case query_message (st_db s) message_id user_id of
                     Some message \<Rightarrow>
                       if 1 \<le> rating \<and> rating \<le> 5 then
                         (Inr True,
                          logger (Log_info (str ''Message '' @ message_id @ str '' rated ''
                                            @ show_int rating @ str '' stars''))
                            (s\<lparr>st_db := update_message (cm_id message)
                                  (\<lambda>m. m\<lparr>cm_user_rating := Some rating\<rparr>) (st_db s)\<rparr>))
                       else (Inr False, s)
                   | None \<Rightarrow> (Inr False, s)) st of
        (Inr b, st') \<Rightarrow> (b, st')
      | (Inl e, st') \<Rightarrow> (False, logger (Log_error (str ''Error rating message'') e) st'))"

text \<open>
  \<open>session.delete\<close> of a chat session: the relationship \<open>messages\<close> is declared with
  \<open>cascade="all, delete-orphan"\<close>, so the messages of the session go with it.
\<close>

definition delete_cascade :: "pystr \<Rightarrow> database \<Rightarrow> database" where
  "delete_cascade session_id d =
     d\<lparr>chat_sessions := filter (\<lambda>s. cs_id s \<noteq> session_id) (chat_sessions d),
       chat_messages := filter (\<lambda>m. cm_session_id m \<noteq> session_id) (chat_messages d)\<rparr>"

definition query_session :: "database \<Rightarrow> pystr \<Rightarrow> pystr \<Rightarrow> chat_session option" where
  "query_session d session_id user_id =
     find (\<lambda>s. cs_id s = session_id \<and> cs_user_id s = user_id) (chat_sessions d)"

definition delete_session ::
  "(database \<Rightarrow> error option) \<Rightarrow> pystr \<Rightarrow> pystr \<Rightarrow> state \<Rightarrow> bool \<times> state" where
  "delete_session commit session_id user_id st =
     (case get_session commit
             (\<lambda>s. case query_session (st_db s) session_id user_id of
                     Some session_to_delete \<Rightarrow>
                       (Inr True,
                        logger (Log_info (str ''Session '' @ session_id
                                          @ str '' deleted successfully by user '' @ user_id))
                          (s\<lparr>st_db := delete_cascade (cs_id session_to_delete) (st_db s)\<rparr>))
                   | None \<Rightarrow>
                       (Inr False,
                        logger (Log_warning (str ''User '' @ user_id
                                             @ str '' failed to delete session '' @ session_id
                                             @ str '': Not found or not owner'') None) s)) st of
        (Inr b, st') \<Rightarrow> (b, st')
      | (Inl e, st') \<Rightarrow>
          (False, logger (Log_error (str ''Error deleting session '' @ session_id) e) st'))"

section \<open>Medical data (\<open>UserManager\<close> in \<open>src/database/user_manager.py\<close>)\<close>

text \<open>
  The dictionary \<open>medical_data\<close>: a key that is absent is \<open>None\<close>. The same record is the
  dictionary that \<open>get_user_medical_data\<close> returns (it never holds the emergency
  contact); \<open>{}\<close> is \<open>no_medical_data\<close>.
\<close>

record medical_data =
  medical_conditions :: "pystr list option"
  medications :: "pystr list option"
  allergies :: "pystr list option"
  emergency_contact :: "(pystr \<times> pystr) list option"

definition no_medical_data :: medical_data where
  "no_medical_data =
     \<lparr>medical_conditions = None, medications = None, allergies = None,
      emergency_contact = None\<rparr>"

definition query_user :: "database \<Rightarrow> pystr \<Rightarrow> user option" where
  "query_user d user_id = find (\<lambda>u. u_id u = user_id) (users d)"

definition update_user :: "pystr \<Rightarrow> (user \<Rightarrow> user) \<Rightarrow> database \<Rightarrow> database" where
  "update_user user_id f d =
     d\<lparr>users := map (\<lambda>u. if u_id u = user_id then f u else u) (users d)\<rparr>"

text \<open>
  One \<open>if key in medical_data: user.column = encrypt_data(json.dumps(...))\<close>: the
  assignments made so far, extended by this one, or the exception of \<open>encrypt_data\<close>.
\<close>

definition assign_encrypted ::
  "'r fernet \<Rightarrow> 'r \<Rightarrow> pystr option \<Rightarrow> (pystr option \<Rightarrow> user \<Rightarrow> user) \<Rightarrow> (user \<Rightarrow> user)
     \<Rightarrow> error + (user \<Rightarrow> user)" where
  "assign_encrypted f r text column assigned =
     (case text of
        None \<Rightarrow> Inr assigned
      | Some t \<Rightarrow>
          (case encrypt_data f r t of
             Inl e \<Rightarrow> Inl e
           | Inr c \<Rightarrow> Inr (column (Some c) \<circ> assigned)))"

text \<open>
  \<open>update_medical_profile\<close>. The four encryptions draw the nonces \<open>nonce 0\<close> to
  \<open>nonce 3\<close>; \<open>now\<close> is \<open>datetime.utcnow()\<close>.
\<close>

definition update_medical_profile ::
  "'r fernet \<Rightarrow> (nat \<Rightarrow> 'r) \<Rightarrow> (database \<Rightarrow> error option) \<Rightarrow> datetime \<Rightarrow> pystr
     \<Rightarrow> medical_data \<Rightarrow> state \<Rightarrow> bool \<times> state" where
  "update_medical_profile f nonce commit now user_id data st =
     (case get_session commit
             (\<lambda>s. case query_user (st_db s) user_id of
                     None \<Rightarrow> (Inr False, s)
                   | Some user \<Rightarrow>
                       (case assign_encrypted f (nonce 0)
                               (map_option json_dumps (medical_conditions data))
                               (\<lambda>c u. u\<lparr>u_medical_conditions := c\<rparr>) id of
                          Inl e \<Rightarrow> (Inl e, s)
                        | Inr a1 \<Rightarrow>
                       (case assign_encrypted f (nonce 1)
                               (map_option json_dumps (medications data))
                               (\<lambda>c u. u\<lparr>u_medications := c\<rparr>) a1 of
                          Inl e \<Rightarrow> (Inl e, s)
                        | Inr a2 \<Rightarrow>
                       (case assign_encrypted f (nonce 2)
                               (map_option json_dumps (allergies data))
                               (\<lambda>c u. u\<lparr>u_allergies := c\<rparr>) a2 of
                          Inl e \<Rightarrow> (Inl e, s)
                        | Inr a3 \<Rightarrow>
                       (case assign_encrypted f (nonce 3)
                               (map_option json_dumps_dict (emergency_contact data))
                               (\<lambda>c u. u\<lparr>u_emergency_contact := c\<rparr>) a3 of
                          Inl e \<Rightarrow> (Inl e, s)
                        | Inr a4 \<Rightarrow>
                            (Inr True,
                             logger (Log_info (str ''Medical profile updated for user ''
                                               @ user_id))
                               (s\<lparr>st_db := update_user (u_id user)
                                     ((\<lambda>u. u\<lparr>u_updated_at := Some now\<rparr>) \<circ> a4)
                                     (st_db s)\<rparr>))))))) st of
        (Inr b, st') \<Rightarrow> (b, st')
      | (Inl e, st') \<Rightarrow>
          (False, logger (Log_error (str ''Error updating medical profile'') e) st'))"

text \<open>
  One \<open>if user.column: try: ... json.loads(decrypt_data(user.column)) except ...: []\<close>:
  no entry for a column that is \<open>NULL\<close> or empty, the decoded list, or the empty list and
  a warning when decrypting or decoding raises.
\<close>

definition read_encrypted ::
  "'r fernet \<Rightarrow> pystr \<Rightarrow> pystr option \<Rightarrow> state \<Rightarrow> pystr list option \<times> state" where
  "read_encrypted f what column s =
     (case column of
        None \<Rightarrow> (None, s)
      | Some c \<Rightarrow>
          if c = [] then (None, s)
          else (case decrypt_data f c of
                  Inl e \<Rightarrow>
                    (Some [], logger (Log_warning (str ''Could not decrypt '' @ what) (Some e)) s)
                | Inr t \<Rightarrow>
                    (case json_loads t of
                       Inl e \<Rightarrow>
                         (Some [],
                          logger (Log_warning (str ''Could not decrypt '' @ what) (Some e)) s)
                     | Inr v \<Rightarrow> (Some v, s))))"

definition get_user_medical_data ::
  "'r fernet \<Rightarrow> (database \<Rightarrow> error option) \<Rightarrow> pystr \<Rightarrow> state \<Rightarrow> medical_data \<times> state" where
  "get_user_medical_data f commit user_id st =
     (case get_session commit
             (\<lambda>s. case query_user (st_db s) user_id of
                     None \<Rightarrow> (Inr no_medical_data, s)
                   | Some user \<Rightarrow>
                       (case read_encrypted f (str ''medical conditions'')
                               (u_medical_conditions user) s of
                          (c, s1) \<Rightarrow>
                       (case read_encrypted f (str ''medications'') (u_medications user) s1 of
                          (m, s2) \<Rightarrow>
                       (case read_encrypted f (str ''allergies'') (u_allergies user) s2 of
                          (a, s3) \<Rightarrow>
                            (Inr \<lparr>medical_conditions = c, medications = m, allergies = a,
                                  emergency_contact = None\<rparr>, s3))))) st of
        (Inr data, st') \<Rightarrow> (data, st')
      | (Inl e, st') \<Rightarrow>
          (no_medical_data, logger (Log_error (str ''Error getting user medical data'') e) st'))"

text \<open>
  The seven checks of a registration, in the order of the source. An optional field that
  is absent or empty is not validated by the source; its validator accepts the empty
  string, so the check is the validator's verdict in both cases.
\<close>

definition registration_checks :: "pylib \<Rightarrow> environ \<Rightarrow> (string \<rightharpoonup> pystr) \<Rightarrow> bool list" where
  "registration_checks lib env user_data =
     [fst (validate_username lib (dict_get user_data ''username'')),
      fst (validate_sql_injection lib (dict_get user_data ''username'')),
      fst (validate_email lib (dict_get user_data ''email'')),
      fst (validate_password lib env (dict_get user_data ''password'')),
      fst (validate_name lib (dict_get user_data ''first_name'') (str ''First name'')),
      fst (validate_name lib (dict_get user_data ''last_name'') (str ''Last name'')),
      fst (validate_phone_number lib (dict_get user_data ''phone''))]"

text \<open>The message a check contributes: none when it passes.\<close>

definition error_of :: "pystr \<Rightarrow> bool \<times> pystr \<Rightarrow> pystr list" where
  "error_of label r = (if fst r then [] else [label @ snd r])"

section \<open>Concrete instances of the parameters\<close>

text \<open>
  Two ciphers with the interface of Fernet, to run the definitions on concrete inputs:
  one adds the initialisation vector to every byte behind a version byte and the vector
  itself, the other raises on every call.
\<close>

definition demo_fernet :: "byte fernet" where
  "demo_fernet =
     \<lparr>fernet_encrypt = (\<lambda>iv b. Inr (0x80 # iv # map (\<lambda>x. x + iv) b)),
      fernet_decrypt =
        (\<lambda>tok. case tok of
                 v # iv # ct \<Rightarrow>
                   if v = 0x80 then Inr (map (\<lambda>x. x - iv) ct) else Inl InvalidToken
               | _ \<Rightarrow> Inl InvalidToken)\<rparr>"

definition failing_fernet :: "byte fernet" where
  "failing_fernet =
     \<lparr>fernet_encrypt = (\<lambda>iv b. Inl TypeError),
      fernet_decrypt = (\<lambda>tok. Inl InvalidToken)\<rparr>"



text \<open>
  A database with one chat session of the user alice and one message in it, and two
  engines: one accepts every commit, one refuses every commit.
\<close>

definition demo_session :: chat_session where
  "demo_session =
     \<lparr>cs_id = str ''s1'', cs_user_id = str ''alice'', cs_session_name = None,
      cs_created_at = None, cs_updated_at = None, cs_is_bookmarked = Some False,
      cs_session_summary = None, cs_language_used = None, cs_is_shared = Some False,
      cs_shared_with_provider = None\<rparr>"

definition demo_message :: chat_message where
  "demo_message =
     \<lparr>cm_id = str ''m1'', cm_session_id = str ''s1'', cm_user_message = None,
      cm_bot_response = None, cm_source_documents = None, cm_timestamp = None,
      cm_response_time = None, cm_confidence_score = None, cm_is_bookmarked = Some False,
      cm_user_rating = None, cm_user_notes = None, cm_medical_specialty = None,
      cm_urgency_level = None\<rparr>"

definition demo_state :: state where
  "demo_state =
     \<lparr>st_db = \<lparr>users = [], chat_sessions = [demo_session], chat_messages = [demo_message]\<rparr>,
      st_log = []\<rparr>"

definition accept_commit :: "database \<Rightarrow> error option" where
  "accept_commit d = None"


text \<open>A database with the single user u1, who has no medical data yet.\<close>

definition demo_user :: user where
  "demo_user =
     \<lparr>u_id = str ''u1'', u_username = str ''alice'', u_email = str ''alice@example.org'',
      u_password_hash = str ''02e7'', u_first_name = None, u_last_name = None,
      u_date_of_birth = None, u_phone_number = None, u_language_preference = None,
      u_accessibility_font_size = None, u_accessibility_high_contrast = None,
      u_accessibility_screen_reader = None, u_medical_conditions = None,
      u_medications = None, u_allergies = None, u_emergency_contact = None,
      u_created_at = None, u_updated_at = None, u_is_active = Some True,
      u_last_login = None, u_data_sharing_consent = None, u_marketing_consent = None\<rparr>"

definition demo_user_state :: state where
  "demo_user_state =
     \<lparr>st_db = \<lparr>users = [demo_user], chat_sessions = [], chat_messages = []\<rparr>, st_log = []\<rparr>"

text \<open>
  Medical data whose first list holds one string of two code points, a high surrogate and
  a low surrogate (the Python literal \<open>"\ud83d\ude00"\<close>), and ordinary medical data.
\<close>

definition surrogate_data :: medical_data where
  "surrogate_data =
     \<lparr>medical_conditions = Some [[0xD83D, 0xDE00]], medications = Some [], allergies = Some [],
      emergency_contact = None\<rparr>"

definition demo_data :: medical_data where
  "demo_data =
     \<lparr>medical_conditions = Some [str ''asthma''], medications = Some [str ''salbutamol 100''],
      allergies = Some [], emergency_contact = Some [(str ''name'', str ''Bob'')]\<rparr>"

section \<open>The codecs invert each other\<close>

subsection \<open>UTF-8\<close>

lemma unat_byte_of_nat: "n < 256 \<Longrightarrow> unat (of_nat n :: byte) = n"
  by (simp add: unat_of_nat)

lemma utf8_decode_one_1: "unat b0 < 0x80 \<Longrightarrow> utf8_decode_one (b0 # rest) = Some (unat b0, rest)"
  by simp

lemma utf8_decode_one_2:
  "unat b0 = 0xC0 + h \<Longrightarrow> 2 \<le> h \<Longrightarrow> h < 32 \<Longrightarrow> unat b1 = 0x80 + l \<Longrightarrow> l < 64 \<Longrightarrow>
   utf8_decode_one (b0 # b1 # rest) = Some (h * 64 + l, rest)"
  by (simp add: is_cont_def)

lemma utf8_decode_one_3:
  "unat b0 = 0xE0 + h \<Longrightarrow> h < 16 \<Longrightarrow> unat b1 = 0x80 + m \<Longrightarrow> m < 64 \<Longrightarrow>
   unat b2 = 0x80 + l \<Longrightarrow> l < 64 \<Longrightarrow> 0x800 \<le> h * 4096 + m * 64 + l \<Longrightarrow>
   \<not> (0xD800 \<le> h * 4096 + m * 64 + l \<and> h * 4096 + m * 64 + l \<le> 0xDFFF) \<Longrightarrow>
   utf8_decode_one (b0 # b1 # b2 # rest) = Some (h * 4096 + m * 64 + l, rest)"
  by (simp add: is_cont_def Let_def)

lemma utf8_decode_one_4:
  "unat b0 = 0xF0 + h \<Longrightarrow> h < 5 \<Longrightarrow> unat b1 = 0x80 + m \<Longrightarrow> m < 64 \<Longrightarrow>
   unat b2 = 0x80 + k \<Longrightarrow> k < 64 \<Longrightarrow>
   unat b3 = 0x80 + l \<Longrightarrow> l < 64 \<Longrightarrow> 0x10000 \<le> h * 262144 + m * 4096 + k * 64 + l \<Longrightarrow>
   h * 262144 + m * 4096 + k * 64 + l \<le> 0x10FFFF \<Longrightarrow>
   utf8_decode_one (b0 # b1 # b2 # b3 # rest) = Some (h * 262144 + m * 4096 + k * 64 + l, rest)"
  by (simp add: is_cont_def Let_def)

lemma nat_digits3:
  fixes c :: nat
  shows "c div 4096 * 4096 + c div 64 mod 64 * 64 + c mod 64 = c"
proof -
  define q1 where "q1 = c div 64"
  define q2 where "q2 = q1 div 64"
  define m where "m = q1 mod 64"
  define l where "l = c mod 64"
  have 1: "c = q1 * 64 + l" unfolding q1_def l_def by simp
  have 2: "q1 = q2 * 64 + m" unfolding q2_def m_def by simp
  have 3: "c div 4096 = q2" unfolding q2_def q1_def by (simp add: div_mult2_eq [symmetric])
  have "c div 4096 * 4096 + c div 64 mod 64 * 64 + c mod 64 = q2 * 4096 + m * 64 + l"
    by (simp only: 3 m_def q1_def l_def)
  also have "\<dots> = c" using 1 2 by linarith
  finally show ?thesis .
qed

lemma nat_digits4:
  fixes c :: nat
  shows "c div 262144 * 262144 + c div 4096 mod 64 * 4096 + c div 64 mod 64 * 64 + c mod 64 = c"
proof -
  define q1 where "q1 = c div 64"
  define q2 where "q2 = q1 div 64"
  define q3 where "q3 = q2 div 64"
  define k where "k = q2 mod 64"
  define m where "m = q1 mod 64"
  define l where "l = c mod 64"
  have 1: "c = q1 * 64 + l" unfolding q1_def l_def by simp
  have 2: "q1 = q2 * 64 + m" unfolding q2_def m_def by simp
  have 3: "q2 = q3 * 64 + k" unfolding q3_def k_def by simp
  have 4: "c div 4096 = q2" unfolding q2_def q1_def by (simp add: div_mult2_eq [symmetric])
  have 5: "c div 262144 = q3"
    unfolding q3_def q2_def q1_def by (simp add: div_mult2_eq [symmetric])
  have "c div 262144 * 262144 + c div 4096 mod 64 * 4096 + c div 64 mod 64 * 64 + c mod 64
        = q3 * 262144 + k * 4096 + m * 64 + l"
    by (simp only: 4 5 k_def m_def q1_def l_def)
  also have "\<dots> = c" using 1 2 3 by linarith
  finally show ?thesis .
qed

lemma utf8_decode_one_encode_cp:
  assumes "utf8_encode_cp c = Inr bs"
  shows "utf8_decode_one (bs @ rest) = Some (c, rest)"
proof -
  consider (a) "c < 0x80" | (b) "0x80 \<le> c" "c < 0x800"
    | (c) "0x800 \<le> c" "c < 0x10000" "\<not> (0xD800 \<le> c \<and> c \<le> 0xDFFF)"
    | (d) "0x10000 \<le> c" "c < 0x110000"
    | (e) "0xD800 \<le> c \<and> c \<le> 0xDFFF" | (f) "0x110000 \<le> c"
    by linarith
  then show ?thesis
  proof cases
    case a
    with assms have "bs = [of_nat c]" by (simp add: utf8_encode_cp_def)
    then show ?thesis using a utf8_decode_one_1[of "of_nat c" rest]
      by (simp add: unat_byte_of_nat)
  next
    case b
    then have 1: "c div 64 < 32" "c mod 64 < 64" "2 \<le> c div 64"
      by (simp_all add: less_mult_imp_div_less less_eq_div_iff_mult_less_eq)
    from b assms have bs: "bs = [of_nat (0xC0 + c div 64), of_nat (0x80 + c mod 64)]"
      by (simp add: utf8_encode_cp_def)
    have u1: "unat (of_nat (0xC0 + c div 64) :: byte) = 0xC0 + c div 64"
      using 1 by (intro unat_byte_of_nat) simp
    have u2: "unat (of_nat (0x80 + c mod 64) :: byte) = 0x80 + c mod 64"
      using 1 by (intro unat_byte_of_nat) simp
    have r: "c div 64 * 64 + c mod 64 = c" by simp
    show ?thesis unfolding bs using utf8_decode_one_2[OF u1 1(3) 1(1) u2 1(2), of rest]
      by (simp only: r append_Cons append_Nil)
  next
    case c
    then have 1: "c div 4096 < 16" "c div 64 mod 64 < 64" "c mod 64 < 64"
      by (simp_all add: less_mult_imp_div_less)
    from c assms have bs: "bs = [of_nat (0xE0 + c div 4096), of_nat (0x80 + c div 64 mod 64),
             of_nat (0x80 + c mod 64)]"
      by (auto simp: utf8_encode_cp_def)
    have u1: "unat (of_nat (0xE0 + c div 4096) :: byte) = 0xE0 + c div 4096"
      using 1 by (intro unat_byte_of_nat) simp
    have u2: "unat (of_nat (0x80 + c div 64 mod 64) :: byte) = 0x80 + c div 64 mod 64"
      using 1 by (intro unat_byte_of_nat) simp
    have u3: "unat (of_nat (0x80 + c mod 64) :: byte) = 0x80 + c mod 64"
      using 1 by (intro unat_byte_of_nat) simp
    note r = nat_digits3 [of c]
    show ?thesis unfolding bs
      using utf8_decode_one_3[OF u1 1(1) u2 1(2) u3 1(3), of rest] c
      by (simp only: r append_Cons append_Nil, simp?)
  next
    case d
    then have 1: "c div 262144 < 5" "c div 4096 mod 64 < 64" "c div 64 mod 64 < 64"
      "c mod 64 < 64"
      by (simp_all add: less_mult_imp_div_less)
    from d assms have bs: "bs = [of_nat (0xF0 + c div 262144), of_nat (0x80 + c div 4096 mod 64),
             of_nat (0x80 + c div 64 mod 64), of_nat (0x80 + c mod 64)]"
      by (auto simp: utf8_encode_cp_def)
    have u1: "unat (of_nat (0xF0 + c div 262144) :: byte) = 0xF0 + c div 262144"
      using 1 by (intro unat_byte_of_nat) simp
    have u2: "unat (of_nat (0x80 + c div 4096 mod 64) :: byte) = 0x80 + c div 4096 mod 64"
      using 1 by (intro unat_byte_of_nat) simp
    have u3: "unat (of_nat (0x80 + c div 64 mod 64) :: byte) = 0x80 + c div 64 mod 64"
      using 1 by (intro unat_byte_of_nat) simp
    have u4: "unat (of_nat (0x80 + c mod 64) :: byte) = 0x80 + c mod 64"
      using 1 by (intro unat_byte_of_nat) simp
    note r = nat_digits4 [of c]
    show ?thesis unfolding bs
      using utf8_decode_one_4[OF u1 1(1) u2 1(2) u3 1(3) u4 1(4), of rest] d
      by (simp only: r append_Cons append_Nil, simp?)
  next
    case e
    with assms show ?thesis by (auto simp: utf8_encode_cp_def)
  next
    case f
    with assms show ?thesis by (auto simp: utf8_encode_cp_def)
  qed
qed

lemma utf8_decode_step:
  "utf8_decode_one bs = Some (c, r) \<Longrightarrow>
   utf8_decode bs = (case utf8_decode r of Inl e \<Rightarrow> Inl e | Inr cs \<Rightarrow> Inr (c # cs))"
  by (subst utf8_decode.simps) auto

lemma utf8_decode_Nil: "utf8_decode [] = Inr []"
  by (subst utf8_decode.simps) simp

lemma utf8_roundtrip: "utf8_encode s = Inr b \<Longrightarrow> utf8_decode b = Inr s"
proof (induction s arbitrary: b)
  case Nil
  then show ?case by (simp add: utf8_decode_Nil)
next
  case (Cons c cs)
  then obtain bs rest where 1: "utf8_encode_cp c = Inr bs" "utf8_encode cs = Inr rest" "b = bs @ rest"
    by (auto split: sum.splits)
  from Cons.IH 1 have "utf8_decode rest = Inr cs" by simp
  then show ?case using utf8_decode_one_encode_cp[OF 1(1), of rest] 1(3)
    by (simp add: utf8_decode_step)
qed

lemma utf8_decode_ascii:
  "list_all (\<lambda>b. unat b < 0x80) bs \<Longrightarrow> utf8_decode bs = Inr (map unat bs)"
proof (induction bs)
  case Nil
  show ?case by (simp add: utf8_decode_Nil)
next
  case (Cons b bs)
  then have "utf8_decode_one (b # bs) = Some (unat b, bs)" "utf8_decode bs = Inr (map unat bs)"
    by (simp_all add: utf8_decode_one_1)
  then show ?case by (simp add: utf8_decode_step)
qed

lemma utf8_encode_ascii:
  "list_all (\<lambda>b. unat b < 0x80) bs \<Longrightarrow> utf8_encode (map unat bs) = Inr bs"
  by (induction bs) (simp_all add: utf8_encode_cp_def)

subsection \<open>Base64\<close>

lemma unat_table_b2a:
  "unat (table_b2a_base64 n) =
     (if n < 26 then 65 + n else if n < 52 then 71 + n else if n < 62 then n - 4
      else if n = 62 then 43 else 47)"
  unfolding table_b2a_base64_def
  by (auto simp del: of_nat_add of_nat_diff simp add: unat_byte_of_nat)

lemma table_a2b_b2a: "n < 64 \<Longrightarrow> table_a2b_base64 (table_b2a_base64 n) = Some n"
  unfolding table_a2b_base64_def Let_def unat_table_b2a by auto

lemma table_b2a_not_pad: "table_b2a_base64 n \<noteq> BASE64_PAD"
proof
  assume "table_b2a_base64 n = BASE64_PAD"
  then have "unat (table_b2a_base64 n) = 61" by (simp add: BASE64_PAD_def)
  then show False unfolding unat_table_b2a by (auto split: if_splits)
qed

lemma table_b2a_ascii: "unat (table_b2a_base64 n) < 0x80"
  unfolding unat_table_b2a by auto

lemma translation_table_b2a:
  "urlsafe_decode_translation (urlsafe_encode_translation (table_b2a_base64 n)) = table_b2a_base64 n"
proof -
  have "unat (table_b2a_base64 n) \<noteq> 45" "unat (table_b2a_base64 n) \<noteq> 95"
    unfolding unat_table_b2a by (auto split: if_splits)
  then have "table_b2a_base64 n \<noteq> 45" "table_b2a_base64 n \<noteq> 95" by auto
  then show ?thesis
    by (simp add: urlsafe_decode_translation_def urlsafe_encode_translation_def)
qed

lemma translation_pad:
  "urlsafe_decode_translation (urlsafe_encode_translation BASE64_PAD) = BASE64_PAD"
  by (simp add: urlsafe_decode_translation_def urlsafe_encode_translation_def BASE64_PAD_def)

lemma translation_b64encode:
  "map (urlsafe_decode_translation \<circ> urlsafe_encode_translation) (b64encode s) = b64encode s"
  by (induction s rule: b64encode.induct)
     (simp_all add: Let_def translation_table_b2a translation_pad)

lemma a2b_data0:
  "n < 64 \<Longrightarrow> a2b_base64 0 l p out (table_b2a_base64 n # rest) = a2b_base64 1 n 0 out rest"
  by (simp add: table_b2a_not_pad table_a2b_b2a)

lemma a2b_data1:
  "n < 64 \<Longrightarrow> a2b_base64 1 l p out (table_b2a_base64 n # rest)
     = a2b_base64 2 (n mod 16) 0 (out @ [of_nat (l * 4 + n div 16)]) rest"
  by (simp add: table_b2a_not_pad table_a2b_b2a)

lemma a2b_data2:
  "n < 64 \<Longrightarrow> a2b_base64 2 l p out (table_b2a_base64 n # rest)
     = a2b_base64 3 (n mod 4) 0 (out @ [of_nat (l * 16 + n div 4)]) rest"
  by (simp add: table_b2a_not_pad table_a2b_b2a)

lemma a2b_data3:
  "n < 64 \<Longrightarrow> a2b_base64 3 l p out (table_b2a_base64 n # rest)
     = a2b_base64 0 0 0 (out @ [of_nat (l * 64 + n)]) rest"
  by (simp add: table_b2a_not_pad table_a2b_b2a)

lemma a2b_pad2: "a2b_base64 2 l 0 out [BASE64_PAD, BASE64_PAD] = Inr out"
  by simp

lemma a2b_pad3: "a2b_base64 3 l 0 out [BASE64_PAD] = Inr out"
  by simp

lemma div_mult_add_less: "(b::nat) < n \<Longrightarrow> (a * n + b) div n = a"
  by simp

lemma mod_mult_add_less: "(b::nat) < n \<Longrightarrow> (a * n + b) mod n = b"
  by simp

lemma a2b_quad:
  assumes "xh < 64" "xl < 4" "yh < 16" "yl < 16" "zh < 4" "zl < 64"
  shows "a2b_base64 0 0 0 out
          (table_b2a_base64 xh # table_b2a_base64 (xl * 16 + yh) #
           table_b2a_base64 (yl * 4 + zh) # table_b2a_base64 zl # rest)
         = a2b_base64 0 0 0
             (out @ [of_nat (xh * 4 + xl), of_nat (yh * 16 + yl), of_nat (zh * 64 + zl)]) rest"
proof -
  have n2: "xl * 16 + yh < 64" using assms(2,3) by linarith
  have n3: "yl * 4 + zh < 64" using assms(4,5) by linarith
  have e1: "(xl * 16 + yh) div 16 = xl" "(xl * 16 + yh) mod 16 = yh"
    using assms(3) by (simp_all only: div_mult_add_less mod_mult_add_less)
  have e2: "(yl * 4 + zh) div 4 = yl" "(yl * 4 + zh) mod 4 = zh"
    using assms(5) by (simp_all only: div_mult_add_less mod_mult_add_less)
  show ?thesis
    by (simp only: a2b_data0[OF assms(1)] a2b_data1[OF n2] a2b_data2[OF n3] a2b_data3[OF assms(6)]
        e1 e2 append_assoc append_Cons append_Nil)
qed

lemma a2b_pair:
  assumes "xh < 64" "xl < 4" "yh < 16" "yl < 16"
  shows "a2b_base64 0 0 0 out
          [table_b2a_base64 xh, table_b2a_base64 (xl * 16 + yh),
           table_b2a_base64 (yl * 4), BASE64_PAD]
         = Inr (out @ [of_nat (xh * 4 + xl), of_nat (yh * 16 + yl)])"
proof -
  have n2: "xl * 16 + yh < 64" using assms(2,3) by linarith
  have n3: "yl * 4 < 64" using assms(4) by linarith
  have e1: "(xl * 16 + yh) div 16 = xl" "(xl * 16 + yh) mod 16 = yh"
    using assms(3) by (simp_all only: div_mult_add_less mod_mult_add_less)
  have e2: "yl * 4 div 4 = yl" by simp
  show ?thesis
    by (simp only: a2b_data0[OF assms(1)] a2b_data1[OF n2] a2b_data2[OF n3] e1 e2 a2b_pad3
        append_assoc append_Cons append_Nil)
qed

lemma a2b_single:
  assumes "xh < 64" "xl < 4"
  shows "a2b_base64 0 0 0 out
          [table_b2a_base64 xh, table_b2a_base64 (xl * 16), BASE64_PAD, BASE64_PAD]
         = Inr (out @ [of_nat (xh * 4 + xl)])"
proof -
  have n2: "xl * 16 < 64" using assms(2) by linarith
  have e1: "xl * 16 div 16 = xl" "xl * 16 mod 16 = 0" by simp_all
  show ?thesis
    by (simp only: a2b_data0[OF assms(1)] a2b_data1[OF n2] e1 a2b_pad2)
qed

lemma byte_split4: "unat (a :: byte) div 4 < 64" "unat a mod 4 < 4"
  "of_nat (unat a div 4 * 4 + unat a mod 4) = a"
proof -
  have "unat a < 64 * 4" using unsigned_less[of a] by simp
  then show "unat a div 4 < 64" by (rule less_mult_imp_div_less)
  show "unat a mod 4 < 4" by simp
  have "unat a div 4 * 4 + unat a mod 4 = unat a" by (rule div_mult_mod_eq)
  then show "of_nat (unat a div 4 * 4 + unat a mod 4) = a" by simp
qed

lemma byte_split16: "unat (a :: byte) div 16 < 16" "unat a mod 16 < 16"
  "of_nat (unat a div 16 * 16 + unat a mod 16) = a"
proof -
  have "unat a < 16 * 16" using unsigned_less[of a] by simp
  then show "unat a div 16 < 16" by (rule less_mult_imp_div_less)
  show "unat a mod 16 < 16" by simp
  have "unat a div 16 * 16 + unat a mod 16 = unat a" by (rule div_mult_mod_eq)
  then show "of_nat (unat a div 16 * 16 + unat a mod 16) = a" by simp
qed

lemma byte_split64: "unat (a :: byte) div 64 < 4" "unat a mod 64 < 64"
  "of_nat (unat a div 64 * 64 + unat a mod 64) = a"
proof -
  have "unat a < 4 * 64" using unsigned_less[of a] by simp
  then show "unat a div 64 < 4" by (rule less_mult_imp_div_less)
  show "unat a mod 64 < 64" by simp
  have "unat a div 64 * 64 + unat a mod 64 = unat a" by (rule div_mult_mod_eq)
  then show "of_nat (unat a div 64 * 64 + unat a mod 64) = a" by simp
qed

lemma a2b_b64encode: "a2b_base64 0 0 0 out (b64encode s) = Inr (out @ s)"
proof (induction s arbitrary: out rule: b64encode.induct)
  case 1
  show ?case by simp
next
  case (2 a)
  show ?case
    using a2b_single[where out=out, OF byte_split4(1)[of a] byte_split4(2)[of a]]
    by (simp only: b64encode.simps Let_def byte_split4(3))
next
  case (3 a b)
  show ?case
    using a2b_pair[where out=out, OF byte_split4(1)[of a] byte_split4(2)[of a] byte_split16(1)[of b] byte_split16(2)[of b]]
    by (simp only: b64encode.simps Let_def byte_split4(3) byte_split16(3))
next
  case (4 a b c rest)
  have "a2b_base64 0 0 0 out (b64encode (a # b # c # rest))
        = a2b_base64 0 0 0 (out @ [a, b, c]) (b64encode rest)"
    using a2b_quad[where out=out and rest="b64encode rest",
        OF byte_split4(1)[of a] byte_split4(2)[of a] byte_split16(1)[of b] byte_split16(2)[of b]
           byte_split64(1)[of c] byte_split64(2)[of c]]
    by (simp only: b64encode.simps Let_def byte_split4(3) byte_split16(3) byte_split64(3)
        append_Cons append_Nil)
  also have "\<dots> = Inr ((out @ [a, b, c]) @ rest)" by (rule "4.IH")
  finally show ?case by simp
qed

lemma urlsafe_b64_roundtrip: "urlsafe_b64decode (urlsafe_b64encode s) = Inr s"
  by (simp add: urlsafe_b64decode_def urlsafe_b64encode_def b64decode_def
      translation_b64encode a2b_b64encode)

lemma b64encode_Nil_iff: "b64encode s = [] \<longleftrightarrow> s = []"
  by (induction s rule: b64encode.induct) (simp_all add: Let_def)

lemma b64encode_ascii: "list_all (\<lambda>b. unat b < 0x80) (map urlsafe_encode_translation (b64encode s))"
proof -
  have t: "unat (urlsafe_encode_translation (table_b2a_base64 n)) < 0x80" for n
    using table_b2a_ascii[of n] by (simp add: urlsafe_encode_translation_def)
  have p: "unat (urlsafe_encode_translation BASE64_PAD) < 0x80"
    by (simp add: urlsafe_encode_translation_def BASE64_PAD_def)
  show ?thesis
    by (induction s rule: b64encode.induct) (simp_all add: Let_def t p)
qed

section \<open>Properties of the encryption helper\<close>

lemma encrypt_data_Inr:
  assumes "encrypt_data f r s = Inr t" "s \<noteq> []"
  shows "\<exists>b tok. utf8_encode s = Inr b \<and> fernet_encrypt f r b = Inr tok
                 \<and> t = map unat (urlsafe_b64encode tok)"
proof -
  from assms obtain b tok where
    b: "utf8_encode s = Inr b" and tok: "fernet_encrypt f r b = Inr tok"
    and t: "utf8_decode (urlsafe_b64encode tok) = Inr t"
    by (auto simp: encrypt_data_def encrypt_def encrypt_try_def split: sum.splits)
  have ascii: "list_all (\<lambda>b. unat b < 0x80) (urlsafe_b64encode tok)"
    unfolding urlsafe_b64encode_def by (rule b64encode_ascii)
  from t have "t = map unat (urlsafe_b64encode tok)"
    by (simp add: utf8_decode_ascii[OF ascii])
  with b tok show ?thesis by blast
qed

lemma decrypt_data_encoded:
  assumes "utf8_encode s = Inr b" "fernet_decrypt f tok = Inr b" "tok \<noteq> []"
  shows "decrypt_data f (map unat (urlsafe_b64encode tok)) = Inr s"
proof -
  let ?t = "map unat (urlsafe_b64encode tok)"
  have ascii: "list_all (\<lambda>b. unat b < 0x80) (urlsafe_b64encode tok)"
    unfolding urlsafe_b64encode_def by (rule b64encode_ascii)
  have t_ne: "?t \<noteq> []"
    using assms(3) by (simp add: urlsafe_b64encode_def b64encode_Nil_iff)
  have 1: "utf8_encode ?t = Inr (urlsafe_b64encode tok)"
    by (rule utf8_encode_ascii[OF ascii])
  have "decrypt_try f ?t = Inr s"
    by (simp add: decrypt_try_def 1 urlsafe_b64_roundtrip assms(2) utf8_roundtrip[OF assms(1)])
  then show ?thesis
    using t_ne by (simp add: decrypt_data_def decrypt_def)
qed

text \<open>
  Claim C1. Decryption inverts encryption on every non-empty string that encryption
  accepts. The cipher is a parameter; what is assumed of it is Fernet's contract: a token
  it produces is not empty, and it decrypts to the plaintext. The UTF-8 and Base64 steps
  around the cipher are the ones proved above.
\<close>

theorem encrypt_decrypt_roundtrip:
  assumes cipher: "\<And>r b tok. fernet_encrypt f r b = Inr tok \<Longrightarrow> tok \<noteq> [] \<and> fernet_decrypt f tok = Inr b"
    and nonempty: "s \<noteq> []"
    and enc: "encrypt_data f r s = Inr t"
  shows "decrypt_data f t = Inr s"
proof -
  from encrypt_data_Inr [OF enc nonempty] obtain b tok where
    b: "utf8_encode s = Inr b" and tok: "fernet_encrypt f r b = Inr tok"
    and t: "t = map unat (urlsafe_b64encode tok)"
    by blast
  from cipher [OF tok] have "tok \<noteq> []" "fernet_decrypt f tok = Inr b"
    by simp_all
  with b show ?thesis
    unfolding t by (intro decrypt_data_encoded)
qed

lemma demo_fernet_inverts:
  "fernet_encrypt demo_fernet r b = Inr tok \<Longrightarrow> tok \<noteq> [] \<and> fernet_decrypt demo_fernet tok = Inr b"
  by (auto simp: demo_fernet_def comp_def)

theorem encrypt_decrypt_roundtrip_witness:
  "encrypt_data demo_fernet 7 (str ''hi'') = Inr (str ''gAdvcA=='')
   \<and> decrypt_data demo_fernet (str ''gAdvcA=='') = Inr (str ''hi'')"
proof -
  have e: "encrypt_data demo_fernet 7 (str ''hi'') = Inr (str ''gAdvcA=='')"
    by code_simp
  have n: "str ''hi'' \<noteq> []" by (simp add: str_def)
  show ?thesis
    using encrypt_decrypt_roundtrip[of demo_fernet, OF demo_fernet_inverts n e] e by simp
qed

text \<open>
  Claim C9. The empty string bypasses the cipher: \<open>encrypt_data("")\<close> and
  \<open>decrypt_data("")\<close> both return the empty string, whatever the cipher is (also one
  that raises on every call), so the round trip holds for the empty string.
\<close>

theorem empty_bypasses_cipher:
  "encrypt_data f r [] = Inr [] \<and> decrypt_data f [] = Inr []"
  by (simp add: encrypt_data_def encrypt_def decrypt_data_def decrypt_def)

text \<open>
  Claim C2, as stated: a failure inside \<open>encrypt_data\<close> yields the empty string. It
  does not: \<open>encrypt\<close> logs the exception and raises it again. A string holding the
  lone surrogate U+D800 cannot be encoded, and a cipher that raises makes any string fail.
\<close>

theorem encrypt_failure_counterexample:
  "encrypt_try demo_fernet 7 [0xD800] = Inl UnicodeEncodeError
   \<and> encrypt_data demo_fernet 7 [0xD800] \<noteq> Inr []
   \<and> encrypt_try failing_fernet 7 (str ''a'') = Inl TypeError
   \<and> encrypt_data failing_fernet 7 (str ''a'') \<noteq> Inr []"
  by (simp add: encrypt_data_def encrypt_def encrypt_try_def utf8_encode_cp_def
      demo_fernet_def failing_fernet_def str_def)

text \<open>
  Claim C2, amended. When the \<open>try\<close> block of \<open>decrypt_data\<close> raises, the
  function returns the empty string, and it never raises; when the \<open>try\<close> block of
  \<open>encrypt_data\<close> raises on a non-empty string, the same exception reaches the caller.
\<close>

theorem cipher_failure_handling:
  "(decrypt_try f x = Inl e1 \<longrightarrow> decrypt_data f x = Inr [])
   \<and> (\<exists>s. decrypt_data f x = Inr s)
   \<and> (data \<noteq> [] \<and> encrypt_try f r data = Inl e2 \<longrightarrow> encrypt_data f r data = Inl e2)"
  by (auto simp: decrypt_data_def decrypt_def encrypt_data_def encrypt_def split: sum.splits)

theorem cipher_failure_handling_witness:
  "decrypt_try demo_fernet (str ''Q'') = Inl Binascii_Error
   \<and> decrypt_data demo_fernet (str ''Q'') = Inr []
   \<and> encrypt_try demo_fernet 7 [0xD800] = Inl UnicodeEncodeError
   \<and> encrypt_data demo_fernet 7 [0xD800] = Inl UnicodeEncodeError"
proof -
  have d: "decrypt_try demo_fernet (str ''Q'') = Inl Binascii_Error"
    by (simp add: decrypt_try_def str_def utf8_encode_cp_def urlsafe_b64decode_def
        b64decode_def urlsafe_decode_translation_def BASE64_PAD_def table_a2b_base64_def)
  have e: "encrypt_try demo_fernet 7 [0xD800] = Inl UnicodeEncodeError"
    by (simp add: encrypt_try_def utf8_encode_cp_def)
  show ?thesis
    using cipher_failure_handling
      [of demo_fernet "str ''Q''" Binascii_Error "[0xD800]" 7 UnicodeEncodeError] d e
    by simp
qed

section \<open>Properties of password hashing\<close>

lemma utf8_encode_cp_total:
  "c < 0xD800 \<or> (0xDFFF < c \<and> c < 0x110000) \<Longrightarrow> \<exists>bs. utf8_encode_cp c = Inr bs"
  by (auto simp: utf8_encode_cp_def)

lemma utf8_encode_total: "encodable s \<Longrightarrow> \<exists>b. utf8_encode s = Inr b"
proof (induction s)
  case Nil
  show ?case by simp
next
  case (Cons c cs)
  then obtain bs rest where "utf8_encode_cp c = Inr bs" "utf8_encode cs = Inr rest"
    using utf8_encode_cp_total[of c] by (auto simp: encodable_def)
  then show ?case by simp
qed




section \<open>Properties of the validators\<close>





lemma validate_name_empty: "validate_name lib [] field_name = (True, [])"
  by (simp add: validate_name_def)

lemma validate_phone_number_empty: "validate_phone_number lib [] = (True, [])"
  by (simp add: validate_phone_number_def)

lemma append_error:
  "(case r of (is_valid, error) \<Rightarrow> if \<not> is_valid then errors @ [label @ error] else errors)
     = errors @ error_of label r"
  by (cases r) (simp add: error_of_def)

lemma first_error:
  "(case r of (is_valid, error) \<Rightarrow> if \<not> is_valid then [label @ error] else [])
     = error_of label r"
  by (cases r) (simp add: error_of_def)

lemma optional_name_error:
  "(if name \<noteq> [] then errors @ error_of label (validate_name lib name field_name) else errors)
     = errors @ error_of label (validate_name lib name field_name)"
  by (simp add: validate_name_empty error_of_def)

lemma optional_phone_error:
  "(if phone \<noteq> [] then errors @ error_of label (validate_phone_number lib phone) else errors)
     = errors @ error_of label (validate_phone_number lib phone)"
  by (simp add: validate_phone_number_empty error_of_def)

lemma validate_user_registration_errors:
  "snd (validate_user_registration lib env user_data) =
     error_of (str ''Username: '') (validate_username lib (dict_get user_data ''username''))
     @ error_of (str ''Username: '') (validate_sql_injection lib (dict_get user_data ''username''))
     @ error_of (str ''Email: '') (validate_email lib (dict_get user_data ''email''))
     @ error_of (str ''Password: '') (validate_password lib env (dict_get user_data ''password''))
     @ error_of (str ''First name: '')
         (validate_name lib (dict_get user_data ''first_name'') (str ''First name''))
     @ error_of (str ''Last name: '')
         (validate_name lib (dict_get user_data ''last_name'') (str ''Last name''))
     @ error_of (str ''Phone: '') (validate_phone_number lib (dict_get user_data ''phone''))"
  unfolding validate_user_registration_def Let_def
  by (simp only: append_error first_error optional_name_error optional_phone_error snd_conv,
      (simp only: append_assoc)?)

lemma validate_user_registration_fst:
  "fst (validate_user_registration lib env user_data)
     = (snd (validate_user_registration lib env user_data) = [])"
  unfolding validate_user_registration_def Let_def by simp

lemma error_of_Nil: "(error_of label r = []) = fst r"
  by (simp add: error_of_def)

lemma length_error_of: "length (error_of label r) = (if fst r then 0 else 1)"
  by (simp add: error_of_def)

lemma length_filter_Not_Cons:
  "length (filter Not (b # bs)) = (if b then 0 else 1) + length (filter Not bs)"
  by simp

text \<open>
  Claim C5. \<open>validate_user_registration\<close> returns \<open>(True, [])\<close> exactly when the seven
  checks of \<open>registration_checks\<close> pass: the username validator, the SQL-injection check
  of the username, the email and password validators, and the validators of first name,
  last name and phone (which pass on an absent or empty field, so only a provided field
  can fail). Otherwise it returns \<open>False\<close> with a non-empty list holding one message
  for each check that failed.
\<close>

theorem registration_validation:
  "fst (validate_user_registration lib env user_data)
     = list_all id (registration_checks lib env user_data)
   \<and> (fst (validate_user_registration lib env user_data)
        = (snd (validate_user_registration lib env user_data) = []))
   \<and> length (snd (validate_user_registration lib env user_data))
     = length (filter Not (registration_checks lib env user_data))"
proof (intro conjI)
  show "fst (validate_user_registration lib env user_data)
        = (snd (validate_user_registration lib env user_data) = [])"
    by (rule validate_user_registration_fst)
  show "fst (validate_user_registration lib env user_data)
     = list_all id (registration_checks lib env user_data)"
    unfolding validate_user_registration_fst validate_user_registration_errors
      registration_checks_def
    by (simp add: error_of_Nil)
  show "length (snd (validate_user_registration lib env user_data))
     = length (filter Not (registration_checks lib env user_data))"
    unfolding validate_user_registration_errors registration_checks_def
    by (simp only: length_append length_error_of length_filter_Not_Cons filter.simps(1)
        list.size(3) add_0_right)
qed

section \<open>Properties of the database layer\<close>

lemma find_None_list_ex: "find P xs = None \<longleftrightarrow> \<not> list_ex P xs"
  by (auto simp: find_None_iff list_ex_iff)

lemma query_message_None:
  "query_message d message_id user_id = None \<longleftrightarrow> \<not> message_of_user d message_id user_id"
  by (simp add: query_message_def message_of_user_def find_None_list_ex)

lemma query_session_None:
  "query_session d session_id user_id = None \<longleftrightarrow> \<not> session_of_user d session_id user_id"
  by (simp add: query_session_def session_of_user_def find_None_list_ex)


lemma get_session_db:
  "get_session commit body st = (res, st') \<Longrightarrow>
     st_db st' = st_db st \<or> st_db st' = st_db (snd (body st))"
  by (auto simp: get_session_def split: prod.splits sum.splits option.splits)





text \<open>
  Claim C10. \<open>bookmark_message\<close> and \<open>rate_message\<close> return \<open>False\<close> and leave the
  database as it was unless the chat session of a message with the given id belongs to the
  user (and, for \<open>rate_message\<close>, the rating is between 1 and 5); \<open>delete_session\<close>
  does so unless a session with the given id belongs to the user. So a row changes only
  for its owner.
\<close>

theorem ownership_enforced:
  "(\<not> message_of_user (st_db st) message_id user_id \<longrightarrow>
      fst (bookmark_message commit message_id user_id st) = False
      \<and> st_db (snd (bookmark_message commit message_id user_id st)) = st_db st)
   \<and> (\<not> (message_of_user (st_db st) message_id user_id \<and> 1 \<le> rating \<and> rating \<le> 5) \<longrightarrow>
      fst (rate_message commit message_id user_id rating st) = False
      \<and> st_db (snd (rate_message commit message_id user_id rating st)) = st_db st)
   \<and> (\<not> session_of_user (st_db st) session_id user_id \<longrightarrow>
      fst (delete_session commit session_id user_id st) = False
      \<and> st_db (snd (delete_session commit session_id user_id st)) = st_db st)"
proof (intro conjI impI)
  assume "\<not> message_of_user (st_db st) message_id user_id"
  then have q: "query_message (st_db st) message_id user_id = None"
    by (simp add: query_message_None)
  show "fst (bookmark_message commit message_id user_id st) = False"
    by (simp add: bookmark_message_def get_session_def q logger_def split: option.splits)
  show "st_db (snd (bookmark_message commit message_id user_id st)) = st_db st"
    by (simp add: bookmark_message_def get_session_def q logger_def split: option.splits)
next
  assume a: "\<not> (message_of_user (st_db st) message_id user_id \<and> 1 \<le> rating \<and> rating \<le> 5)"
  have b: "(case query_message (st_db st) message_id user_id of
              Some message \<Rightarrow>
                if 1 \<le> rating \<and> rating \<le> 5 then X message else (Inr False, st)
            | None \<Rightarrow> (Inr False, st)) = (Inr False, st)" for X :: "chat_message \<Rightarrow> (error + bool) \<times> state"
    using a query_message_None[of "st_db st" message_id user_id]
    by (auto split: option.splits)
  show "fst (rate_message commit message_id user_id rating st) = False"
    unfolding rate_message_def get_session_def b
    by (simp add: logger_def split: option.splits)
  show "st_db (snd (rate_message commit message_id user_id rating st)) = st_db st"
    unfolding rate_message_def get_session_def b
    by (simp add: logger_def split: option.splits)
next
  assume "\<not> session_of_user (st_db st) session_id user_id"
  then have q: "query_session (st_db st) session_id user_id = None"
    by (simp add: query_session_None)
  show "fst (delete_session commit session_id user_id st) = False"
    by (simp add: delete_session_def get_session_def q logger_def split: option.splits)
  show "st_db (snd (delete_session commit session_id user_id st)) = st_db st"
    by (simp add: delete_session_def get_session_def q logger_def split: option.splits)
qed

theorem ownership_enforced_witness:
  "\<not> message_of_user (st_db demo_state) (str ''m1'') (str ''bob'')
   \<and> fst (bookmark_message accept_commit (str ''m1'') (str ''bob'') demo_state) = False
   \<and> st_db (snd (bookmark_message accept_commit (str ''m1'') (str ''bob'') demo_state))
       = st_db demo_state
   \<and> fst (rate_message accept_commit (str ''m1'') (str ''alice'') 6 demo_state) = False
   \<and> st_db (snd (rate_message accept_commit (str ''m1'') (str ''alice'') 6 demo_state))
       = st_db demo_state
   \<and> \<not> session_of_user (st_db demo_state) (str ''s1'') (str ''bob'')
   \<and> fst (delete_session accept_commit (str ''s1'') (str ''bob'') demo_state) = False
   \<and> st_db (snd (delete_session accept_commit (str ''s1'') (str ''bob'') demo_state))
       = st_db demo_state"
proof -
  have s: "\<not> session_of_user (st_db demo_state) (str ''s1'') (str ''bob'')"
    by (simp add: session_of_user_def demo_state_def demo_session_def str_def)
  have m: "\<not> message_of_user (st_db demo_state) (str ''m1'') (str ''bob'')"
    by (simp add: message_of_user_def session_of_user_def demo_state_def demo_session_def
        demo_message_def str_def)
  from ownership_enforced
         [of demo_state "str ''m1''" "str ''bob''" accept_commit 6 "str ''s1''"]
       ownership_enforced
         [of demo_state "str ''m1''" "str ''alice''" accept_commit 6 "str ''s1''"] s m
  show ?thesis by simp
qed

section \<open>Properties of the medical data\<close>

lemma ascii_Nil: "ascii []"
  by (simp add: ascii_def)

lemma ascii_append: "ascii (xs @ ys) \<longleftrightarrow> ascii xs \<and> ascii ys"
  by (simp add: ascii_def)

lemma ascii_Cons: "ascii (x # xs) \<longleftrightarrow> x < 128 \<and> ascii xs"
  by (simp add: ascii_def)

lemma ascii_str_comma: "ascii (str '', '')" "ascii (str '': '')"
  by (simp_all add: ascii_def str_def)

lemma hexdigit_less: "d < 16 \<Longrightarrow> hexdigit d < 128"
  by (simp add: hexdigit_def)

lemma hexdigit_ascii: "hexdigit (n mod 16) < 128"
  by (rule hexdigit_less) simp

lemma hex4_ascii: "ascii (hex4 n)"
  by (simp add: hex4_def ascii_Cons ascii_Nil hexdigit_ascii)

lemma escape_char_ascii: "ascii (escape_char c)"
  by (simp add: escape_char_def ascii_Cons ascii_Nil ascii_append hex4_ascii)

lemma concat_escape_ascii: "ascii (concat (map escape_char s))"
  by (induction s) (simp_all add: ascii_Nil ascii_append escape_char_ascii)

lemma encode_basestring_ascii_ascii: "ascii (encode_basestring_ascii s)"
  by (simp add: encode_basestring_ascii_def ascii_append ascii_Cons ascii_Nil concat_escape_ascii)

lemma join_ascii: "ascii sep \<Longrightarrow> list_all ascii xs \<Longrightarrow> ascii (join sep xs)"
  by (induction sep xs rule: join.induct) (simp_all add: ascii_Nil ascii_append)

lemma json_dumps_ascii: "ascii (json_dumps v)"
  by (simp add: json_dumps_def ascii_append ascii_Cons ascii_Nil join_ascii ascii_str_comma
      list_all_iff encode_basestring_ascii_ascii)

lemma json_dumps_dict_ascii: "ascii (json_dumps_dict d)"
  by (auto simp: json_dumps_dict_def ascii_append ascii_Cons ascii_Nil ascii_str_comma
      list_all_iff encode_basestring_ascii_ascii intro!: join_ascii)

lemma json_dumps_hd: "json_dumps v = 91 # tl (json_dumps v)"
  by (simp add: json_dumps_def)

lemma json_dumps_dict_ne: "json_dumps_dict d \<noteq> []"
  by (simp add: json_dumps_dict_def)

lemma ascii_encodable: "ascii s \<Longrightarrow> encodable s"
  by (induction s) (simp_all add: ascii_def encodable_def)

lemma unat_urlsafe_table:
  "unat (urlsafe_encode_translation (table_b2a_base64 n)) \<noteq> 91"
proof -
  have "unat (table_b2a_base64 n) \<noteq> 91" unfolding unat_table_b2a by (auto split: if_splits)
  then show ?thesis by (auto simp: urlsafe_encode_translation_def)
qed

lemma urlsafe_b64encode_no_bracket: "91 \<notin> set (map unat (urlsafe_b64encode s))"
proof -
  have p: "unat (urlsafe_encode_translation BASE64_PAD) \<noteq> 91"
    by (simp add: urlsafe_encode_translation_def BASE64_PAD_def)
  have "list_all (\<lambda>b. unat b \<noteq> 91) (map urlsafe_encode_translation (b64encode s))"
    by (induction s rule: b64encode.induct) (simp_all add: Let_def unat_urlsafe_table p)
  then show ?thesis by (auto simp: urlsafe_b64encode_def list_all_iff)
qed

lemma encrypt_ascii:
  assumes cipher: "\<And>r b. \<exists>tok. fernet_encrypt f r b = Inr tok \<and> tok \<noteq> []
                              \<and> fernet_decrypt f tok = Inr b"
    and "ascii t" "t \<noteq> []"
  shows "\<exists>x. encrypt_data f r t = Inr x \<and> x \<noteq> [] \<and> decrypt_data f x = Inr t \<and> 91 \<notin> set x"
proof -
  from utf8_encode_total [OF ascii_encodable [OF assms(2)]]
  obtain b where b: "utf8_encode t = Inr b" by blast
  from cipher [of r b] obtain tok where tok: "fernet_encrypt f r b = Inr tok" "tok \<noteq> []"
    "fernet_decrypt f tok = Inr b" by blast
  let ?x = "map unat (urlsafe_b64encode tok)"
  have a: "list_all (\<lambda>b. unat b < 0x80) (urlsafe_b64encode tok)"
    unfolding urlsafe_b64encode_def by (rule b64encode_ascii)
  have "encrypt_data f r t = Inr ?x"
    using assms(3) by (simp add: encrypt_data_def encrypt_def encrypt_try_def b tok(1)
        utf8_decode_ascii [OF a])
  moreover have "?x \<noteq> []"
    using tok(2) by (simp add: urlsafe_b64encode_def b64encode_Nil_iff)
  moreover have "decrypt_data f ?x = Inr t"
    by (rule decrypt_data_encoded [OF b tok(3) tok(2)])
  moreover have "91 \<notin> set ?x" by (rule urlsafe_b64encode_no_bracket)
  ultimately show ?thesis by blast
qed

lemma find_list_ex: "list_ex P xs \<Longrightarrow> \<exists>x. find P xs = Some x \<and> P x"
  by (induction xs) auto

lemma query_user_Some:
  "list_ex (\<lambda>u. u_id u = user_id) (users d) \<Longrightarrow>
     \<exists>u. query_user d user_id = Some u \<and> u_id u = user_id"
  unfolding query_user_def by (rule find_list_ex)

lemma find_update_user:
  assumes "\<And>u. u_id (h u) = u_id u"
  shows "query_user (update_user user_id h d) user_id = map_option h (query_user d user_id)"
proof -
  have "find (\<lambda>u. u_id u = k) (map (\<lambda>u. if u_id u = k then h u else u) xs)
          = map_option h (find (\<lambda>u. u_id u = k) xs)" for k xs
    by (induction xs) (simp_all add: assms)
  then show ?thesis by (simp add: query_user_def update_user_def)
qed

lemma users_update_user:
  assumes "\<And>u. u_id (h u) = u_id u" "\<And>u. P (h u)"
  shows "list_all (\<lambda>u. u_id u = user_id \<longrightarrow> P u) (users (update_user user_id h d))"
proof -
  have "list_all (\<lambda>u. u_id u = k \<longrightarrow> P u) (map (\<lambda>u. if u_id u = k then h u else u) xs)"
    for k xs
    by (induction xs) (simp_all add: assms)
  then show ?thesis by (simp add: update_user_def)
qed

lemma read_encrypted_ok:
  "decrypt_data f x = Inr t \<Longrightarrow> x \<noteq> [] \<Longrightarrow> json_loads t = Inr v \<Longrightarrow>
     read_encrypted f what (Some x) s = (Some v, s)"
  by (simp add: read_encrypted_def)

lemma assign_encrypted_Some:
  "encrypt_data f r t = Inr x \<Longrightarrow>
     assign_encrypted f r (Some t) column assigned = Inr (column (Some x) \<circ> assigned)"
  by (simp add: assign_encrypted_def)

lemma assign_encrypted_total:
  assumes cipher: "\<And>r b. \<exists>tok. fernet_encrypt f r b = Inr tok \<and> tok \<noteq> []
                              \<and> fernet_decrypt f tok = Inr b"
  shows "\<exists>g. assign_encrypted f r (map_option json_dumps_dict e)
               (\<lambda>c u. u\<lparr>u_emergency_contact := c\<rparr>) assigned = Inr (g \<circ> assigned)
             \<and> (\<forall>u. u_id (g u) = u_id u \<and> u_medical_conditions (g u) = u_medical_conditions u
                    \<and> u_medications (g u) = u_medications u \<and> u_allergies (g u) = u_allergies u)"
proof (cases e)
  case None
  then have "assign_encrypted f r (map_option json_dumps_dict e)
               (\<lambda>c u. u\<lparr>u_emergency_contact := c\<rparr>) assigned = Inr (id \<circ> assigned)"
    by (simp add: assign_encrypted_def)
  then show ?thesis by (intro exI [of _ id]) simp
next
  case (Some d)
  from encrypt_ascii [where f = f and r = r and t = "json_dumps_dict d", OF cipher
      json_dumps_dict_ascii json_dumps_dict_ne]
  obtain w where w: "encrypt_data f r (json_dumps_dict d) = Inr w" by blast
  show ?thesis
    by (intro exI [of _ "\<lambda>u. u\<lparr>u_emergency_contact := Some w\<rparr>"])
       (simp add: Some assign_encrypted_Some [OF w])
qed

lemma update_medical_profile_result:
  assumes cipher: "\<And>r b. \<exists>tok. fernet_encrypt f r b = Inr tok \<and> tok \<noteq> []
                              \<and> fernet_decrypt f tok = Inr b"
    and user: "query_user (st_db st) user_id = Some u0" "u_id u0 = user_id"
    and data: "medical_conditions data = Some c" "medications data = Some m"
      "allergies data = Some a"
    and enc: "encrypt_data f (nonce 0) (json_dumps c) = Inr x"
      "encrypt_data f (nonce 1) (json_dumps m) = Inr y"
      "encrypt_data f (nonce 2) (json_dumps a) = Inr z"
    and commit: "\<And>d. commit d = None"
  shows "\<exists>h. (\<forall>u. u_id (h u) = u_id u \<and> u_medical_conditions (h u) = Some x
                  \<and> u_medications (h u) = Some y \<and> u_allergies (h u) = Some z)
             \<and> update_medical_profile f nonce commit now user_id data st
                 = (True, logger (Log_info (str ''Medical profile updated for user '' @ user_id))
                            (st\<lparr>st_db := update_user user_id h (st_db st)\<rparr>))"
proof -
  let ?a3 = "(\<lambda>u. u\<lparr>u_allergies := Some z\<rparr>) \<circ> ((\<lambda>u. u\<lparr>u_medications := Some y\<rparr>)
              \<circ> ((\<lambda>u. u\<lparr>u_medical_conditions := Some x\<rparr>) \<circ> id))"
  from assign_encrypted_total [OF cipher, of "nonce 3" "emergency_contact data" ?a3]
  obtain g where g: "assign_encrypted f (nonce 3) (map_option json_dumps_dict (emergency_contact data))
               (\<lambda>c u. u\<lparr>u_emergency_contact := c\<rparr>) ?a3 = Inr (g \<circ> ?a3)"
    and gp: "\<And>u. u_id (g u) = u_id u \<and> u_medical_conditions (g u) = u_medical_conditions u
                    \<and> u_medications (g u) = u_medications u \<and> u_allergies (g u) = u_allergies u"
    by blast
  let ?h = "(\<lambda>u. u\<lparr>u_updated_at := Some now\<rparr>) \<circ> (g \<circ> ?a3)"
  have 1: "assign_encrypted f (nonce 0) (map_option json_dumps (medical_conditions data))
             (\<lambda>c u. u\<lparr>u_medical_conditions := c\<rparr>) id
           = Inr ((\<lambda>u. u\<lparr>u_medical_conditions := Some x\<rparr>) \<circ> id)"
    unfolding data option.map by (rule assign_encrypted_Some [OF enc(1)])
  have 2: "assign_encrypted f (nonce 1) (map_option json_dumps (medications data))
             (\<lambda>c u. u\<lparr>u_medications := c\<rparr>) ((\<lambda>u. u\<lparr>u_medical_conditions := Some x\<rparr>) \<circ> id)
           = Inr ((\<lambda>u. u\<lparr>u_medications := Some y\<rparr>)
                   \<circ> ((\<lambda>u. u\<lparr>u_medical_conditions := Some x\<rparr>) \<circ> id))"
    unfolding data option.map by (rule assign_encrypted_Some [OF enc(2)])
  have 3: "assign_encrypted f (nonce 2) (map_option json_dumps (allergies data))
             (\<lambda>c u. u\<lparr>u_allergies := c\<rparr>)
             ((\<lambda>u. u\<lparr>u_medications := Some y\<rparr>)
                   \<circ> ((\<lambda>u. u\<lparr>u_medical_conditions := Some x\<rparr>) \<circ> id))
           = Inr ?a3"
    unfolding data option.map by (rule assign_encrypted_Some [OF enc(3)])
  have "update_medical_profile f nonce commit now user_id data st
          = (True, logger (Log_info (str ''Medical profile updated for user '' @ user_id))
                     (st\<lparr>st_db := update_user user_id ?h (st_db st)\<rparr>))"
    unfolding update_medical_profile_def get_session_def
    by (simp only: user option.case 1 2 3 g sum.case prod.case commit logger_def)
  moreover have "\<forall>u. u_id (?h u) = u_id u \<and> u_medical_conditions (?h u) = Some x
                  \<and> u_medications (?h u) = Some y \<and> u_allergies (?h u) = Some z"
    by (simp add: gp)
  ultimately show ?thesis by blast
qed

lemma get_user_medical_data_result:
  assumes user: "query_user (st_db s) user_id = Some u"
    and cols: "u_medical_conditions u = Some x" "u_medications u = Some y"
      "u_allergies u = Some z"
    and dec: "decrypt_data f x = Inr tc" "decrypt_data f y = Inr tm" "decrypt_data f z = Inr ta"
    and ne: "x \<noteq> []" "y \<noteq> []" "z \<noteq> []"
    and json: "json_loads tc = Inr c" "json_loads tm = Inr m" "json_loads ta = Inr a"
    and commit: "\<And>d. commit d = None"
  shows "get_user_medical_data f commit user_id s
           = (\<lparr>medical_conditions = Some c, medications = Some m, allergies = Some a,
                emergency_contact = None\<rparr>, s)"
  unfolding get_user_medical_data_def get_session_def
  by (simp only: user option.case cols read_encrypted_ok [OF dec(1) ne(1) json(1)]
      read_encrypted_ok [OF dec(2) ne(2) json(2)] read_encrypted_ok [OF dec(3) ne(3) json(3)]
      prod.case sum.case commit)

lemma encrypted_not_json: "91 \<notin> set x \<Longrightarrow> x \<noteq> json_dumps v"
  using json_dumps_hd [of v] by (metis list.set_intros(1))

lemma json_dumps_ne: "json_dumps v \<noteq> []"
  by (simp add: json_dumps_def)

lemma medical_profile_stored_read:
  assumes cipher: "\<And>r b. \<exists>tok. fernet_encrypt f r b = Inr tok \<and> tok \<noteq> []
                              \<and> fernet_decrypt f tok = Inr b"
    and user: "list_ex (\<lambda>u. u_id u = user_id) (users (st_db st))"
    and data: "medical_conditions data = Some c" "medications data = Some m"
      "allergies data = Some a"
    and json: "json_loads (json_dumps c) = Inr c'" "json_loads (json_dumps m) = Inr m'"
      "json_loads (json_dumps a) = Inr a'"
    and commit: "\<And>d. commit d = None"
  shows "\<exists>x y z st1.
           update_medical_profile f nonce commit now user_id data st = (True, st1)
           \<and> encrypt_data f (nonce 0) (json_dumps c) = Inr x \<and> x \<noteq> json_dumps c
           \<and> encrypt_data f (nonce 1) (json_dumps m) = Inr y \<and> y \<noteq> json_dumps m
           \<and> encrypt_data f (nonce 2) (json_dumps a) = Inr z \<and> z \<noteq> json_dumps a
           \<and> list_ex (\<lambda>u. u_id u = user_id) (users (st_db st1))
           \<and> list_all (\<lambda>u. u_id u = user_id \<longrightarrow>
                           u_medical_conditions u = Some x \<and> u_medications u = Some y
                           \<and> u_allergies u = Some z) (users (st_db st1))
           \<and> fst (get_user_medical_data f commit user_id st1)
               = \<lparr>medical_conditions = Some c', medications = Some m', allergies = Some a',
                  emergency_contact = None\<rparr>"
proof -
  from query_user_Some [OF user] obtain u0 where
    u0: "query_user (st_db st) user_id = Some u0" "u_id u0 = user_id" by blast
  from encrypt_ascii [where f = f and r = "nonce 0" and t = "json_dumps c", OF cipher
      json_dumps_ascii json_dumps_ne]
  obtain x where x: "encrypt_data f (nonce 0) (json_dumps c) = Inr x" "x \<noteq> []"
    "decrypt_data f x = Inr (json_dumps c)" "91 \<notin> set x" by blast
  from encrypt_ascii [where f = f and r = "nonce 1" and t = "json_dumps m", OF cipher
      json_dumps_ascii json_dumps_ne]
  obtain y where y: "encrypt_data f (nonce 1) (json_dumps m) = Inr y" "y \<noteq> []"
    "decrypt_data f y = Inr (json_dumps m)" "91 \<notin> set y" by blast
  from encrypt_ascii [where f = f and r = "nonce 2" and t = "json_dumps a", OF cipher
      json_dumps_ascii json_dumps_ne]
  obtain z where z: "encrypt_data f (nonce 2) (json_dumps a) = Inr z" "z \<noteq> []"
    "decrypt_data f z = Inr (json_dumps a)" "91 \<notin> set z" by blast
  from update_medical_profile_result [where f = f and nonce = nonce and now = now
      and commit = commit, OF cipher u0 data x(1) y(1) z(1) commit]
  obtain h where h: "\<And>u. u_id (h u) = u_id u" "\<And>u. u_medical_conditions (h u) = Some x"
      "\<And>u. u_medications (h u) = Some y" "\<And>u. u_allergies (h u) = Some z"
    and upd: "update_medical_profile f nonce commit now user_id data st
                = (True, logger (Log_info (str ''Medical profile updated for user '' @ user_id))
                            (st\<lparr>st_db := update_user user_id h (st_db st)\<rparr>))"
    by blast
  define st1 where "st1 = logger (Log_info (str ''Medical profile updated for user '' @ user_id))
                            (st\<lparr>st_db := update_user user_id h (st_db st)\<rparr>)"
  have db1: "st_db st1 = update_user user_id h (st_db st)"
    by (simp add: st1_def logger_def)
  have q1: "query_user (st_db st1) user_id = Some (h u0)"
    unfolding db1 by (simp add: find_update_user [of h, OF h(1)] u0)
  have ex1: "list_ex (\<lambda>u. u_id u = user_id) (users (st_db st1))"
    using q1 by (auto simp: query_user_def find_Some_iff list_ex_iff)
  have all1: "list_all (\<lambda>u. u_id u = user_id \<longrightarrow>
                           u_medical_conditions u = Some x \<and> u_medications u = Some y
                           \<and> u_allergies u = Some z) (users (st_db st1))"
    unfolding db1
    by (rule users_update_user [of h, OF h(1)]) (simp add: h)
  have get: "get_user_medical_data f commit user_id st1
           = (\<lparr>medical_conditions = Some c', medications = Some m', allergies = Some a',
                emergency_contact = None\<rparr>, st1)"
    by (rule get_user_medical_data_result [where commit = commit and f = f,
          OF q1 h(2) h(3) h(4) x(3) y(3) z(3) x(2) y(2) z(2) json commit])
  show ?thesis
    using upd x(1) y(1) z(1) encrypted_not_json [OF x(4)] encrypted_not_json [OF y(4)]
      encrypted_not_json [OF z(4)] ex1 all1 get
    unfolding st1_def [symmetric]
    by (intro exI [of _ x] exI [of _ y] exI [of _ z] exI [of _ st1]) simp
qed

lemma demo_fernet_total:
  "\<exists>tok. fernet_encrypt demo_fernet r b = Inr tok \<and> tok \<noteq> []
         \<and> fernet_decrypt demo_fernet tok = Inr b"
  by (simp add: demo_fernet_def comp_def)

lemma demo_user_exists: "list_ex (\<lambda>u. u_id u = str ''u1'') (users (st_db demo_user_state))"
  by (simp add: demo_user_state_def demo_user_def)


lemma medical_profile_read_back:
  assumes cipher: "\<And>r b. \<exists>tok. fernet_encrypt f r b = Inr tok \<and> tok \<noteq> []
                              \<and> fernet_decrypt f tok = Inr b"
    and user: "list_ex (\<lambda>u. u_id u = user_id) (users (st_db st))"
    and data: "medical_conditions data = Some c" "medications data = Some m"
      "allergies data = Some a"
    and json: "json_loads (json_dumps c) = Inr c'" "json_loads (json_dumps m) = Inr m'"
      "json_loads (json_dumps a) = Inr a'"
    and commit: "\<And>d. commit d = None"
  shows "fst (update_medical_profile f nonce commit now user_id data st) = True
         \<and> fst (get_user_medical_data f commit user_id
                  (snd (update_medical_profile f nonce commit now user_id data st)))
             = \<lparr>medical_conditions = Some c', medications = Some m', allergies = Some a',
                emergency_contact = None\<rparr>"
proof -
  from medical_profile_stored_read [where f = f and commit = commit and nonce = nonce
      and now = now, OF cipher user data json commit]
  obtain st1 where "update_medical_profile f nonce commit now user_id data st = (True, st1)"
    and "fst (get_user_medical_data f commit user_id st1)
           = \<lparr>medical_conditions = Some c', medications = Some m', allergies = Some a',
              emergency_contact = None\<rparr>"
    by blast
  then show ?thesis by simp
qed

lemmas json_eval = json_loads_def json_dumps_def encode_basestring_ascii_def escape_char_def
  hex4_def hexdigit_def step_def string_char_def escape_char_read_def unit_read_def
  hex_value_def hexval_def simple_escape_def is_ws_def is_high_surrogate_def
  is_low_surrogate_def str_def

text \<open>
  Claim C6, as stated, covers every JSON-serializable list. \<open>json.dumps\<close> writes the
  two surrogates of \<open>"\ud83d\ude00"\<close> as two \<open>\uXXXX\<close> escapes and \<open>json.loads\<close>
  joins such a pair into the single character U+1F600, so the list read back is not the
  list that was stored.
\<close>

theorem surrogate_pair_counterexample:
  "fst (update_medical_profile demo_fernet (\<lambda>i. 7) accept_commit 0 (str ''u1'')
          surrogate_data demo_user_state) = True
   \<and> fst (get_user_medical_data demo_fernet accept_commit (str ''u1'')
          (snd (update_medical_profile demo_fernet (\<lambda>i. 7) accept_commit 0 (str ''u1'')
                  surrogate_data demo_user_state)))
     = \<lparr>medical_conditions = Some [[0x1F600]], medications = Some [], allergies = Some [],
        emergency_contact = None\<rparr>
   \<and> medical_conditions surrogate_data = Some [[0xD83D, 0xDE00]]"
proof -
  have j1: "json_loads (json_dumps [[0xD83D, 0xDE00]]) = Inr [[0x1F600]]"
    by (simp add: json_eval)
  have j2: "json_loads (json_dumps []) = Inr []"
    by (simp add: json_eval)
  have d: "medical_conditions surrogate_data = Some [[0xD83D, 0xDE00]]"
    "medications surrogate_data = Some []" "allergies surrogate_data = Some []"
    by (simp_all add: surrogate_data_def)
  from medical_profile_read_back [where f = demo_fernet and commit = accept_commit
      and nonce = "\<lambda>i. 7" and now = 0, OF demo_fernet_total demo_user_exists d j1 j2 j2
      accept_commit_def] d(1)
  show ?thesis by simp
qed

text \<open>
  Claim C6, amended. Let the user exist, let the three fields be lists of strings that
  \<open>json.loads\<close> reads back from their \<open>json.dumps\<close> text, let the cipher keep Fernet's
  contract and the engine accept the commits. Then \<open>update_medical_profile\<close> returns
  \<open>True\<close>; every row of the user holds, in each of the three columns, the encryption of
  the JSON text of the field, which differs from that text; and
  \<open>get_user_medical_data\<close> afterwards returns the three lists.
\<close>

theorem medical_profile_roundtrip:
  assumes cipher: "\<And>r b. \<exists>tok. fernet_encrypt f r b = Inr tok \<and> tok \<noteq> []
                              \<and> fernet_decrypt f tok = Inr b"
    and user: "list_ex (\<lambda>u. u_id u = user_id) (users (st_db st))"
    and data: "medical_conditions data = Some c" "medications data = Some m"
      "allergies data = Some a"
    and json: "json_loads (json_dumps c) = Inr c" "json_loads (json_dumps m) = Inr m"
      "json_loads (json_dumps a) = Inr a"
    and commit: "\<And>d. commit d = None"
  shows "\<exists>x y z st1.
           update_medical_profile f nonce commit now user_id data st = (True, st1)
           \<and> encrypt_data f (nonce 0) (json_dumps c) = Inr x \<and> x \<noteq> json_dumps c
           \<and> encrypt_data f (nonce 1) (json_dumps m) = Inr y \<and> y \<noteq> json_dumps m
           \<and> encrypt_data f (nonce 2) (json_dumps a) = Inr z \<and> z \<noteq> json_dumps a
           \<and> list_ex (\<lambda>u. u_id u = user_id) (users (st_db st1))
           \<and> list_all (\<lambda>u. u_id u = user_id \<longrightarrow>
                           u_medical_conditions u = Some x \<and> u_medications u = Some y
                           \<and> u_allergies u = Some z) (users (st_db st1))
           \<and> fst (get_user_medical_data f commit user_id st1)
               = \<lparr>medical_conditions = Some c, medications = Some m, allergies = Some a,
                  emergency_contact = None\<rparr>"
  by (rule medical_profile_stored_read [where f = f and commit = commit,
        OF cipher user data json commit])

theorem medical_profile_roundtrip_witness:
  "list_ex (\<lambda>u. u_id u = str ''u1'') (users (st_db demo_user_state))
   \<and> json_loads (json_dumps [str ''asthma'']) = Inr [str ''asthma'']
   \<and> json_loads (json_dumps [str ''salbutamol 100'']) = Inr [str ''salbutamol 100'']
   \<and> json_loads (json_dumps []) = Inr []
   \<and> (\<exists>st1. update_medical_profile demo_fernet (\<lambda>i. 7) accept_commit 0 (str ''u1'')
                 demo_data demo_user_state = (True, st1)
             \<and> fst (get_user_medical_data demo_fernet accept_commit (str ''u1'') st1)
                 = \<lparr>medical_conditions = Some [str ''asthma''],
                    medications = Some [str ''salbutamol 100''], allergies = Some [],
                    emergency_contact = None\<rparr>)"
proof -
  have j1: "json_loads (json_dumps [str ''asthma'']) = Inr [str ''asthma'']"
    by (simp add: json_eval)
  have j2: "json_loads (json_dumps [str ''salbutamol 100'']) = Inr [str ''salbutamol 100'']"
    by (simp add: json_eval)
  have j3: "json_loads (json_dumps []) = Inr []"
    by (simp add: json_eval)
  have d: "medical_conditions demo_data = Some [str ''asthma'']"
    "medications demo_data = Some [str ''salbutamol 100'']" "allergies demo_data = Some []"
    by (simp_all add: demo_data_def)
  from medical_profile_roundtrip [where f = demo_fernet and commit = accept_commit
      and nonce = "\<lambda>i. 7" and now = 0, OF demo_fernet_total demo_user_exists d j1 j2 j3
      accept_commit_def]
  have "\<exists>st1. update_medical_profile demo_fernet (\<lambda>i. 7) accept_commit 0 (str ''u1'')
                 demo_data demo_user_state = (True, st1)
             \<and> fst (get_user_medical_data demo_fernet accept_commit (str ''u1'') st1)
                 = \<lparr>medical_conditions = Some [str ''asthma''],
                    medications = Some [str ''salbutamol 100''], allergies = Some [],
                    emergency_contact = None\<rparr>"
    by blast
  with demo_user_exists j1 j2 j3 show ?thesis by blast
qed

end
